theory Spec2Isabelle
  imports Complex_Main "HOL-Library.AList"
begin

section \<open>Values, errors and arrays\<close>

text \<open>
  A shallow embedding of \<^verbatim>\<open>BaseDataObject\<close> of \<^verbatim>\<open>pylim/DataTools.py\<close>.
  Array elements are IEEE-like values: a finite real or one of the three special values.
  Arithmetic on finite values is exact (rounding is abstracted away); the special values
  propagate as they do in numpy.
\<close>

datatype fval = Fin real | NaN | PInf | NInf

fun isfinite :: "fval \<Rightarrow> bool" where
  "isfinite (Fin _) = True"
| "isfinite _ = False"

text \<open>The comparison \<^verbatim>\<open>!=\<close> of floats: NaN differs from everything, itself included.\<close>

fun fneq :: "fval \<Rightarrow> fval \<Rightarrow> bool" where
  "fneq NaN _ = True"
| "fneq _ NaN = True"
| "fneq (Fin a) (Fin b) = (a \<noteq> b)"
| "fneq PInf PInf = False"
| "fneq NInf NInf = False"
| "fneq _ _ = True"

fun fadd :: "fval \<Rightarrow> fval \<Rightarrow> fval" where
  "fadd NaN _ = NaN"
| "fadd _ NaN = NaN"
| "fadd (Fin a) (Fin b) = Fin (a + b)"
| "fadd PInf NInf = NaN"
| "fadd NInf PInf = NaN"
| "fadd PInf _ = PInf"
| "fadd _ PInf = PInf"
| "fadd NInf _ = NInf"
| "fadd _ NInf = NInf"

fun fneg :: "fval \<Rightarrow> fval" where
  "fneg (Fin a) = Fin (- a)"
| "fneg NaN = NaN"
| "fneg PInf = NInf"
| "fneg NInf = PInf"

definition fsub :: "fval \<Rightarrow> fval \<Rightarrow> fval" where
  "fsub a b = fadd a (fneg b)"

fun fsign :: "fval \<Rightarrow> int" where
  "fsign (Fin a) = (if a > 0 then 1 else if a < 0 then - 1 else 0)"
| "fsign PInf = 1"
| "fsign NInf = - 1"
| "fsign NaN = 0"

definition of_sign :: "int \<Rightarrow> fval" where
  "of_sign s = (if s > 0 then PInf else if s < 0 then NInf else NaN)"

fun fmul :: "fval \<Rightarrow> fval \<Rightarrow> fval" where
  "fmul NaN _ = NaN"
| "fmul _ NaN = NaN"
| "fmul (Fin a) (Fin b) = Fin (a * b)"
| "fmul a b = of_sign (fsign a * fsign b)"

fun fdiv :: "fval \<Rightarrow> fval \<Rightarrow> fval" where
  "fdiv NaN _ = NaN"
| "fdiv _ NaN = NaN"
| "fdiv (Fin a) (Fin b) = (if b = 0 then of_sign (fsign (Fin a)) else Fin (a / b))"
| "fdiv (Fin a) _ = Fin 0"
| "fdiv a (Fin b) = of_sign (fsign a * (if b < 0 then - 1 else 1))"
| "fdiv _ _ = NaN"

fun fsqrt :: "fval \<Rightarrow> fval" where
  "fsqrt (Fin a) = (if a < 0 then NaN else Fin (sqrt a))"
| "fsqrt PInf = PInf"
| "fsqrt _ = NaN"

fun fabs :: "fval \<Rightarrow> fval" where
  "fabs (Fin a) = Fin \<bar>a\<bar>"
| "fabs NaN = NaN"
| "fabs _ = PInf"

fun fcos_radians :: "fval \<Rightarrow> fval" where
  "fcos_radians (Fin a) = Fin (cos (a * pi / 180))"
| "fcos_radians _ = NaN"

definition fsum :: "fval list \<Rightarrow> fval" where
  "fsum xs = foldl fadd (Fin 0) xs"

definition fmean :: "fval list \<Rightarrow> fval" where
  "fmean xs = fdiv (fsum xs) (Fin (real (length xs)))"

text \<open>
  The exceptions the code raises, with the text that identifies the raise site. The last
  one, \<open>NotRepresented\<close>, is no exception of the program: it marks a call whose effect the
  record of the object cannot hold (see \<open>setattr_array\<close>).
\<close>

datatype error =
    ValueError string
  | KeyError string
  | IndexError string
  | AttributeError string
  | TypeError string
  | AssertionError string
  | ZeroDivisionError
  | NotRepresented string

datatype 'a outcome = Returned 'a | Raised error

text \<open>
  An n-dimensional array is its shape and its elements in row-major (C) order, which is
  what \<^verbatim>\<open>flatten()\<close> and \<^verbatim>\<open>reshape\<close> of numpy expose.
\<close>

datatype 'a ndarray = NDArray (shape: "nat list") (flat: "'a list")

type_synonym key = string
type_synonym coord = "real list"

definition ndim :: "'a ndarray \<Rightarrow> nat" where
  "ndim a = length (shape a)"

definition asize :: "'a ndarray \<Rightarrow> nat" where
  "asize a = prod_list (shape a)"

definition chunks :: "nat \<Rightarrow> nat \<Rightarrow> 'a list \<Rightarrow> 'a list list" where
  "chunks n len xs = map (\<lambda>i. take len (drop (i * len) xs)) [0..<n]"

text \<open>The sub-arrays along axis 0, each flattened; an array of dimension 0 has none.\<close>

definition rows :: "'a ndarray \<Rightarrow> 'a list list" where
  "rows a = (case shape a of [] \<Rightarrow> [] | n # sp \<Rightarrow> chunks n (prod_list sp) (flat a))"

definition from_rows :: "nat list \<Rightarrow> 'a list list \<Rightarrow> 'a ndarray" where
  "from_rows sp rs = NDArray (length rs # sp) (concat rs)"

subsection \<open>Python sequences\<close>

text \<open>Indexing with a possibly negative index; \<open>None\<close> is Python's IndexError.\<close>

definition py_pos :: "nat \<Rightarrow> int \<Rightarrow> nat option" where
  "py_pos n i = (let j = (if i < 0 then int n + i else i)
                 in if 0 \<le> j \<and> j < int n then Some (nat j) else None)"

definition py_index :: "'a list \<Rightarrow> int \<Rightarrow> 'a option" where
  "py_index xs i = map_option (\<lambda>j. xs ! j) (py_pos (length xs) i)"

text \<open>\<^verbatim>\<open>list.insert(i, x)\<close>: the position is clamped into the list.\<close>

definition py_insert :: "int \<Rightarrow> 'a \<Rightarrow> 'a list \<Rightarrow> 'a list" where
  "py_insert i x xs =
     (let n = int (length xs); j = (if i < 0 then max 0 (n + i) else min n i)
      in take (nat j) xs @ x # drop (nat j) xs)"

text \<open>
  The positions selected by \<^verbatim>\<open>slice(start, stop, step)\<close> in a sequence of length \<open>n\<close>,
  for a step other than 0, as \<^verbatim>\<open>slice.indices\<close> computes them.
\<close>

definition slice_bound :: "int \<Rightarrow> int \<Rightarrow> int \<Rightarrow> int \<Rightarrow> int option \<Rightarrow> int" where
  "slice_bound n lo hi dflt b =
     (case b of None \<Rightarrow> dflt
      | Some v \<Rightarrow> (let w = (if v < 0 then v + n else v) in max lo (min hi w)))"

definition slice_positions :: "int option \<Rightarrow> int option \<Rightarrow> int \<Rightarrow> nat \<Rightarrow> nat list" where
  "slice_positions start stop step n =
     (if step > 0 then
        (let lo = slice_bound (int n) 0 (int n) 0 start;
             hi = slice_bound (int n) 0 (int n) (int n) stop;
             cnt = (if hi \<le> lo then 0 else nat ((hi - lo + step - 1) div step))
         in map (\<lambda>j. nat (lo + int j * step)) [0..<cnt])
      else
        (let lo = slice_bound (int n) (- 1) (int n - 1) (int n - 1) start;
             hi = slice_bound (int n) (- 1) (int n - 1) (- 1) stop;
             cnt = (if lo \<le> hi then 0 else nat ((lo - hi - step - 1) div (- step)))
         in map (\<lambda>j. nat (lo + int j * step)) [0..<cnt]))"

definition py_slice :: "int option \<Rightarrow> int option \<Rightarrow> int \<Rightarrow> 'a list \<Rightarrow> 'a list" where
  "py_slice start stop step xs = map (\<lambda>i. xs ! i) (slice_positions start stop step (length xs))"

subsection \<open>The numpy operations the class uses\<close>

text \<open>
  \<^verbatim>\<open>np.empty(shape)\<close>: a negative length is a ValueError. The content of the fresh
  array is unspecified in numpy; here it is the value given.
\<close>

definition np_empty :: "int list \<Rightarrow> 'a \<Rightarrow> error + 'a ndarray" where
  "np_empty shp v =
     (if list_ex (\<lambda>d. d < 0) shp then Inl (ValueError ''negative dimensions are not allowed'')
      else Inr (NDArray (map nat shp) (replicate (prod_list (map nat shp)) v)))"

text \<open>
  \<^verbatim>\<open>a.reshape(shp)\<close>: one negative entry stands for the length that is left over,
  two are an error, and the sizes must agree.
\<close>

definition np_reshape :: "int list \<Rightarrow> 'a ndarray \<Rightarrow> error + 'a ndarray" where
  "np_reshape shp a =
     (let unknown = filter (\<lambda>d. d < 0) shp;
          known = prod_list (map nat (filter (\<lambda>d. 0 \<le> d) shp))
      in if length unknown > 1 then Inl (ValueError ''can only specify one unknown dimension'')
         else if length unknown = 1 then
           (if known = 0 \<or> asize a mod known \<noteq> 0
            then Inl (ValueError ''cannot reshape array'')
            else Inr (NDArray (map (\<lambda>d. if d < 0 then asize a div known else nat d) shp) (flat a)))
         else if asize a \<noteq> known then Inl (ValueError ''cannot reshape array'')
         else Inr (NDArray (map nat shp) (flat a)))"

text \<open>\<^verbatim>\<open>np.expand_dims(a, axis)\<close> for a non-negative axis.\<close>

definition np_expand_dims :: "nat \<Rightarrow> 'a ndarray \<Rightarrow> error + 'a ndarray" where
  "np_expand_dims axis a =
     (if axis > ndim a then Inl (ValueError ''axis is out of bounds for array'')
      else Inr (NDArray (take axis (shape a) @ 1 # drop axis (shape a)) (flat a)))"

text \<open>Broadcasting: shapes are aligned at their last axis; a length 1 stretches.\<close>

definition pad_shape :: "nat \<Rightarrow> nat list \<Rightarrow> nat list" where
  "pad_shape n s = replicate (n - length s) 1 @ s"

fun bshape_aligned :: "nat list \<Rightarrow> nat list \<Rightarrow> nat list option" where
  "bshape_aligned [] [] = Some []"
| "bshape_aligned (a # as) (b # bs) =
     (if a = b \<or> b = 1 then map_option (Cons a) (bshape_aligned as bs)
      else if a = 1 then map_option (Cons b) (bshape_aligned as bs)
      else None)"
| "bshape_aligned _ _ = None"

definition broadcast_shapes :: "nat list \<Rightarrow> nat list \<Rightarrow> nat list option" where
  "broadcast_shapes s t =
     (let n = max (length s) (length t) in bshape_aligned (pad_shape n s) (pad_shape n t))"

fun bcast :: "nat list \<Rightarrow> nat list \<Rightarrow> 'a list \<Rightarrow> 'a list" where
  "bcast (n # ns) (m # ms) xs =
     (let sub = concat (map (bcast ns ms) (chunks m (prod_list ms) xs))
      in if m = n then sub else concat (replicate n sub))"
| "bcast _ _ xs = xs"

definition broadcast_to :: "nat list \<Rightarrow> 'a ndarray \<Rightarrow> 'a list" where
  "broadcast_to target a = bcast target (pad_shape (length target) (shape a)) (flat a)"

text \<open>An elementwise binary operation of two arrays, with broadcasting.\<close>

definition np_binop :: "('a \<Rightarrow> 'b \<Rightarrow> 'c) \<Rightarrow> 'a ndarray \<Rightarrow> 'b ndarray \<Rightarrow> error + 'c ndarray" where
  "np_binop f a b =
     (case broadcast_shapes (shape a) (shape b) of
        None \<Rightarrow> Inl (ValueError ''operands could not be broadcast together'')
      | Some s \<Rightarrow> Inr (NDArray s (map2 f (broadcast_to s a) (broadcast_to s b))))"

text \<open>
  \<^verbatim>\<open>full[mask] = vals\<close>: the positions where the mask holds receive the values in
  row-major order.
\<close>

fun mask_assign :: "bool list \<Rightarrow> 'a list \<Rightarrow> 'a list \<Rightarrow> 'a list" where
  "mask_assign (m # ms) (f # fs) vs =
     (if m then (case vs of [] \<Rightarrow> f # mask_assign ms fs []
                 | v # vs' \<Rightarrow> v # mask_assign ms fs vs')
      else f # mask_assign ms fs vs)"
| "mask_assign _ fs _ = fs"

definition count_true :: "bool list \<Rightarrow> nat" where
  "count_true bs = length (filter id bs)"

definition np_mask_assign :: "'a ndarray \<Rightarrow> bool ndarray \<Rightarrow> 'a list \<Rightarrow> error + 'a ndarray" where
  "np_mask_assign full msk vals =
     (if shape msk \<noteq> shape full
      then Inl (IndexError ''boolean index did not match indexed array'')
      else if length vals = count_true (flat msk)
      then Inr (NDArray (shape full) (mask_assign (flat msk) (flat full) vals))
      else if length vals = 1
      then Inr (NDArray (shape full)
                 (mask_assign (flat msk) (flat full) (replicate (count_true (flat msk)) (hd vals))))
      else Inl (ValueError ''boolean array indexing assignment cannot assign input values''))"

text \<open>
  \<^verbatim>\<open>np.compress(condition, a)\<close> on a sequence: a condition longer than the sequence
  is an error when it selects a position beyond the end.
\<close>

definition compress_list :: "bool list \<Rightarrow> 'a list \<Rightarrow> error + 'a list" where
  "compress_list cond xs =
     (if list_ex id (drop (length xs) cond)
      then Inl (IndexError ''index out of bounds'')
      else Inr (map snd (filter fst (zip cond xs))))"

definition py_pop :: "int \<Rightarrow> 'a list \<Rightarrow> 'a list option" where
  "py_pop i xs = map_option (\<lambda>j. take j xs @ drop (Suc j) xs) (py_pos (length xs) i)"

text \<open>Sequencing of computations that may raise.\<close>

definition ebind :: "error + 'a \<Rightarrow> ('a \<Rightarrow> error + 'b) \<Rightarrow> error + 'b" where
  "ebind m f = (case m of Inl e \<Rightarrow> Inl e | Inr x \<Rightarrow> f x)"

definition then_do ::
  "'a outcome \<times> 's \<Rightarrow> ('a \<Rightarrow> 's \<Rightarrow> 'b outcome \<times> 's) \<Rightarrow> 'b outcome \<times> 's" where
  "then_do m f = (case m of (Raised e, s) \<Rightarrow> (Raised e, s) | (Returned x, s) \<Rightarrow> f x s)"

definition lift :: "error + 'a \<Rightarrow> 's \<Rightarrow> 'a outcome \<times> 's" where
  "lift m s = (case m of Inl e \<Rightarrow> (Raised e, s) | Inr x \<Rightarrow> (Returned x, s))"

section \<open>The data object\<close>

text \<open>The static names of the class.\<close>

definition TIME :: key where "TIME = ''time''"
definition LEVEL :: key where "LEVEL = ''level''"
definition LAT :: key where "LAT = ''lat''"
definition LON :: key where "LON = ''lon''"

definition COMPRESSED :: key where "COMPRESSED = ''compressed_data''"
definition ORIGDATA :: key where "ORIGDATA = ''orig''"
definition DETRENDED :: key where "DETRENDED = ''detrended''"
definition AWGHT :: key where "AWGHT = ''area_weighted''"
definition RUNMEAN :: key where "RUNMEAN = ''running_mean''"
definition ANOMALY :: key where "ANOMALY = ''anomaly''"
definition CLIMO :: key where "CLIMO = ''climo''"
definition STD :: key where "STD = ''standardized''"
definition EOFPROJ :: key where "EOFPROJ = ''eof_proj''"

text \<open>An entry of the dictionary of EOF statistics.\<close>

datatype stat = StatKey "key option" | StatNum fval | StatArr "fval ndarray"

text \<open>
  The attributes of an object. The dictionaries \<^verbatim>\<open>_data_bins\<close>, \<^verbatim>\<open>_ops_performed\<close> and
  \<^verbatim>\<open>_altered_time_coords\<close> are maps; \<^verbatim>\<open>_dim_coords\<close> is an association list, and is
  \<open>None\<close> when the attribute was never set (no \<^verbatim>\<open>dim_coords\<close> at construction).
  \<open>attrs\<close> holds the attributes named after a data bin (\<^verbatim>\<open>self.orig\<close>,
  \<^verbatim>\<open>self.running_mean\<close>, ..., and those \<^verbatim>\<open>setattr\<close> adds), \<open>None\<close> where the attribute
  is \<^verbatim>\<open>None\<close>.
\<close>

record dataobj =
  full_shp :: "int list"
  forced_flat :: bool
  time_units :: "string option"
  time_cal :: "string option"
  cell_area :: "fval ndarray option"
  irregular_grid :: bool
  coord_grids :: "(key \<rightharpoonup> fval ndarray) option"
  fill_value :: "fval option"
  save_none :: bool
  data_bins :: "key \<rightharpoonup> fval ndarray"
  curr_data_key :: "key option"
  ops_performed :: "key \<rightharpoonup> key list"
  altered_time_coords :: "key \<rightharpoonup> coord"
  start_time_edge :: "int option"
  end_time_edge :: "int option"
  eofs :: "fval ndarray option"
  svals :: "fval ndarray option"
  eof_stats :: "(string \<times> stat) list"
  std_scaling :: "fval option"
  attrs :: "key \<rightharpoonup> fval ndarray"
  climo :: "fval ndarray option"
  leading_time :: bool
  time_shp :: "int list"
  spatial_shp :: "nat list"
  flat_spatial_shp :: "nat list"
  dim_idx :: "(key \<times> int) list option"
  dim_coords :: "(key \<times> int \<times> coord) list option"
  valid_data :: "bool list option"
  is_masked :: bool
  data :: "fval ndarray"

definition set_curr_data_key :: "key \<Rightarrow> dataobj \<Rightarrow> dataobj" where
  "set_curr_data_key new_key s = s\<lparr>curr_data_key := Some new_key\<rparr>"

definition add_to_operation_history ::
  "key option \<Rightarrow> key \<Rightarrow> dataobj \<Rightarrow> unit outcome \<times> dataobj" where
  "add_to_operation_history curr_dkey new_op_key s =
     (case curr_dkey of
        None \<Rightarrow> (Returned (), s\<lparr>ops_performed := (ops_performed s)(new_op_key \<mapsto> [new_op_key])\<rparr>)
      | Some k \<Rightarrow>
          (case ops_performed s k of
             None \<Rightarrow> (Raised (KeyError k), s)
           | Some ops \<Rightarrow>
               (Returned (),
                s\<lparr>ops_performed := (ops_performed s)(new_op_key \<mapsto> ops @ [new_op_key])\<rparr>)))"

definition new_empty_databin :: "int list \<Rightarrow> key \<Rightarrow> dataobj \<Rightarrow> fval ndarray outcome \<times> dataobj" where
  "new_empty_databin shp name s =
     (case np_empty shp (Fin 0) of
        Inl e \<Rightarrow> (Raised e, s)
      | Inr new \<Rightarrow> (Returned new, s\<lparr>data_bins := (data_bins s)(name \<mapsto> new)\<rparr>))"

definition new_databin :: "fval ndarray \<Rightarrow> key \<Rightarrow> dataobj \<Rightarrow> fval ndarray \<times> dataobj" where
  "new_databin d name s = (d, s\<lparr>data_bins := (data_bins s)(name \<mapsto> d)\<rparr>)"

text \<open>The column of an array along axis 0 at a flattened position of the other axes.\<close>

definition column :: "'a ndarray \<Rightarrow> nat \<Rightarrow> 'a list" where
  "column a p = map (\<lambda>r. r ! p) (rows a)"

text \<open>
  \<^verbatim>\<open>_check_invalid_data\<close>: an element is valid when it is finite and differs from the
  fill value; with a leading time axis a location is valid when it is so at every sample.
\<close>

definition check_invalid_data :: "fval ndarray \<Rightarrow> dataobj \<Rightarrow> (bool \<times> bool ndarray option) outcome" where
  "check_invalid_data d s =
     (let full_valid = map (\<lambda>x. isfinite x \<and> (case fill_value s of None \<Rightarrow> True
                                                | Some f \<Rightarrow> fneq x f)) (flat d)
      in if \<not> list_all id full_valid then
           (if leading_time s then
              (case time_shp s of
                 [] \<Rightarrow> Raised (IndexError ''list index out of range'')
               | t # _ \<Rightarrow>
                   Returned (True, Some (NDArray (tl (shape d))
                     (map (\<lambda>p. int (count_true (column (NDArray (shape d) full_valid) p)) = t)
                          [0..<prod_list (tl (shape d))]))))
            else Returned (True, Some (NDArray (shape d) full_valid)))
         else Returned (False, None))"

text \<open>
  \<^verbatim>\<open>_data_masking\<close> for a plain array: \<^verbatim>\<open>np.ma.is_masked(data[0])\<close> is false, and
  \<^verbatim>\<open>data[0]\<close> needs a first element along axis 0. Masked-array inputs are outside this
  embedding.
\<close>

definition data_masking :: "fval ndarray \<Rightarrow> dataobj \<Rightarrow> (bool \<times> bool ndarray option) outcome" where
  "data_masking d s =
     (case shape d of
        [] \<Rightarrow> Raised (IndexError ''too many indices for array'')
      | n # _ \<Rightarrow> if n = 0 then Raised (IndexError ''index 0 is out of bounds for axis 0 with size 0'')
                 else check_invalid_data d s)"

text \<open>\<^verbatim>\<open>np.compress(valid_mask, data, axis=1)\<close>: the selection along the second axis.\<close>

definition compress_axis1 :: "bool list \<Rightarrow> 'a ndarray \<Rightarrow> error + 'a ndarray" where
  "compress_axis1 cond a =
     (case shape a of
        n # m # rest \<Rightarrow>
          (if list_ex id (drop m cond) then Inl (IndexError ''index out of bounds'')
           else Inr (NDArray (n # count_true (take m cond) # rest)
                  (concat (map (\<lambda>r. concat (map snd (filter fst
                                   (zip cond (chunks m (prod_list rest) r))))) (rows a)))))
      | _ \<Rightarrow> Inl (ValueError ''axis 1 is out of bounds for array''))"

text \<open>
  \<^verbatim>\<open>_compress_to_valid_data\<close>: along axis 1 with a leading time axis, over the flattened
  array without. When an output array is given its shape has to be the result's. The cell
  areas are compressed with the same mask.
\<close>

definition compress_to_valid_data ::
  "fval ndarray \<Rightarrow> bool list \<Rightarrow> fval ndarray option \<Rightarrow> dataobj \<Rightarrow> fval ndarray outcome \<times> dataobj" where
  "compress_to_valid_data d valid_mask out_arr s =
     (case (if leading_time s then compress_axis1 valid_mask d
            else map_sum id (\<lambda>xs. NDArray [length xs] xs) (compress_list valid_mask (flat d))) of
        Inl e \<Rightarrow> (Raised e, s)
      | Inr res \<Rightarrow>
          (if (case out_arr of None \<Rightarrow> False | Some out \<Rightarrow> shape out \<noteq> shape res)
           then (Raised (ValueError ''output array does not match result of np.compress''), s)
           else (case cell_area s of
                   None \<Rightarrow> (Returned res, s)
                 | Some ca \<Rightarrow>
                     (case compress_list valid_mask (flat ca) of
                        Inl e \<Rightarrow> (Raised e, s)
                      | Inr xs \<Rightarrow> (Returned res, s\<lparr>cell_area := Some (NDArray [length xs] xs)\<rparr>)))))"

text \<open>\<^verbatim>\<open>_flatten_curr_data\<close>: the spatial axes of \<^verbatim>\<open>self.data\<close> become one.\<close>

definition flatten_curr_data :: "dataobj \<Rightarrow> unit outcome \<times> dataobj" where
  "flatten_curr_data s =
     (case np_reshape (if leading_time s then time_shp s @ map int (flat_spatial_shp s)
                       else map int (flat_spatial_shp s)) (data s) of
        Inl e \<Rightarrow> (Raised e, s)
      | Inr d \<Rightarrow>
          (let s1 = s\<lparr>data := d\<rparr> in
           case cell_area s1 of
             None \<Rightarrow> (Returned (), s1)
           | Some ca \<Rightarrow>
               (case np_reshape (map int (flat_spatial_shp s1)) ca of
                  Inl e \<Rightarrow> (Raised e, s1)
                | Inr ca' \<Rightarrow> (Returned (), s1\<lparr>cell_area := Some ca'\<rparr>))))"

text \<open>
  The search of \<^verbatim>\<open>_set_time_coord\<close> through the operations performed, last one first
  (\<^verbatim>\<open>ops[::-1]\<close>), for a key with a recorded time coordinate.
\<close>

fun first_altered :: "(key \<rightharpoonup> coord) \<Rightarrow> key list \<Rightarrow> coord option" where
  "first_altered alt [] = None"
| "first_altered alt (k # ks) = (case alt k of Some tc \<Rightarrow> Some tc | None \<Rightarrow> first_altered alt ks)"

definition resolve_time_coord :: "key \<Rightarrow> dataobj \<Rightarrow> error + coord" where
  "resolve_time_coord k s =
     (case altered_time_coords s k of
        Some tc \<Rightarrow> Inr tc
      | None \<Rightarrow>
          (case ops_performed s k of
             None \<Rightarrow> Inl (KeyError k)
           | Some ops \<Rightarrow>
               (case first_altered (altered_time_coords s) (rev ops) of
                  None \<Rightarrow> Inl (IndexError ''No suitable time coordinates found for current key.'')
                | Some tc \<Rightarrow> Inr tc)))"

definition set_time_coord :: "key \<Rightarrow> int \<Rightarrow> dataobj \<Rightarrow> unit outcome \<times> dataobj" where
  "set_time_coord k time_len_of_data s =
     (case resolve_time_coord k s of
        Inl e \<Rightarrow> (Raised e, s)
      | Inr time_coord \<Rightarrow>
          (if int (length time_coord) \<noteq> time_len_of_data
           then (Raised (ValueError ''Inconsistent sampling dimension and corresponding coordinate length detected.''), s)
           else (case dim_coords s of
                   None \<Rightarrow> (Raised (AttributeError ''_dim_coords''), s)
                 | Some dc \<Rightarrow>
                     (case map_of dc TIME of
                        None \<Rightarrow> (Raised (KeyError TIME), s)
                      | Some (time_idx, _) \<Rightarrow>
                          (Returned (),
                           s\<lparr>dim_coords := Some (AList.update TIME (time_idx, time_coord) dc),
                             time_shp := [time_len_of_data]\<rparr>)))))"

text \<open>
  \<^verbatim>\<open>reset_data\<close>: a KeyError raised anywhere in the body is replaced by the KeyError of
  the handler; what was assigned before the raise stays assigned.
\<close>

definition reset_data :: "key \<Rightarrow> dataobj \<Rightarrow> fval ndarray outcome \<times> dataobj" where
  "reset_data k s =
     (case data_bins s k of
        None \<Rightarrow> (Raised (KeyError ''Key {} not saved.  Could not reset self.data.''), s)
      | Some d \<Rightarrow>
          (let s1 = set_curr_data_key k (s\<lparr>data := d\<rparr>) in
           if leading_time s1 then
             (case shape d of
                [] \<Rightarrow> (Raised (IndexError ''tuple index out of range''), s1)
              | n # _ \<Rightarrow>
                  (case set_time_coord k (int n) s1 of
                     (Raised (KeyError _), s2) \<Rightarrow>
                       (Raised (KeyError ''Key {} not saved.  Could not reset self.data.''), s2)
                   | (Raised e, s2) \<Rightarrow> (Raised e, s2)
                   | (Returned _, s2) \<Rightarrow> (Returned (data s2), s2)))
           else (Returned (data s1), s1)))"

subsection \<open>Inflating compressed data\<close>

text \<open>
  The loop of \<^verbatim>\<open>inflate_full_grid\<close> that gives the mask an axis of length 1 for every
  axis of the target shape whose length is not the mask's.
\<close>

fun expand_mask_dims :: "nat \<Rightarrow> nat \<Rightarrow> int list \<Rightarrow> bool ndarray \<Rightarrow> error + bool ndarray" where
  "expand_mask_dims L idx [] m = Inr m"
| "expand_mask_dims L idx (d # ds) m =
     (if d \<noteq> int L
      then (case np_expand_dims idx m of
              Inl e \<Rightarrow> Inl e
            | Inr m' \<Rightarrow> expand_mask_dims L (Suc idx) ds m')
      else expand_mask_dims L (Suc idx) ds m)"

definition inflate_full_grid ::
  "dataobj \<Rightarrow> fval ndarray option \<Rightarrow> int \<Rightarrow> bool \<Rightarrow> fval ndarray option outcome" where
  "inflate_full_grid s data_arg expand_axis reshape_orig =
     (if \<not> is_masked s then Returned None
      else case valid_data s of
        None \<Rightarrow> Raised (AttributeError ''valid_data'')
      | Some v \<Rightarrow>
         (case
            ebind
              (case data_arg of
                 Some d \<Rightarrow>
                   (case py_pos (ndim d) expand_axis of
                      None \<Rightarrow> Inl (IndexError ''tuple index out of range'')
                    | Some j \<Rightarrow>
                        if shape d ! j \<noteq> count_true v
                        then Inl (ValueError ''Input data does not have same length as number of valid data elements.'')
                        else Inr (d, (map int (shape d))[j := int (length v)]))
               | None \<Rightarrow> Inr (data s, time_shp s @ [int (length v)]))
              (\<lambda>(d, shp).
                 ebind (np_empty shp NaN) (\<lambda>full.
                 ebind (expand_mask_dims (length v) 0 shp (NDArray [length v] v)) (\<lambda>vm.
                 ebind (np_binop (\<lambda>one b. one \<and> b)
                          (NDArray (map nat shp) (replicate (prod_list (map nat shp)) True)) vm) (\<lambda>vm'.
                 ebind (np_mask_assign full vm' (flat d)) (\<lambda>full'.
                   if reshape_orig then
                     (case py_pop expand_axis shp of
                        None \<Rightarrow> Inl (IndexError ''pop index out of range'')
                      | Some popped \<Rightarrow>
                          np_reshape (foldl (\<lambda>acc dim_len. py_insert expand_axis (int dim_len) acc)
                                        popped (rev (spatial_shp s))) full')
                   else Inr full')))))
          of Inl e \<Rightarrow> Raised e | Inr full \<Rightarrow> Returned (Some full)))"

subsection \<open>Further numpy operations\<close>

definition map_arr :: "('a \<Rightarrow> 'b) \<Rightarrow> 'a ndarray \<Rightarrow> 'b ndarray" where
  "map_arr f a = NDArray (shape a) (map f (flat a))"

text \<open>The elementwise mean of a list of rows of length \<open>P\<close>.\<close>

definition mean_rows :: "nat \<Rightarrow> fval list list \<Rightarrow> fval list" where
  "mean_rows P rs = map (\<lambda>p. fmean (map (\<lambda>r. r ! p) rs)) [0..<P]"

text \<open>
  \<^verbatim>\<open>_avg_func\<close>, that is \<^verbatim>\<open>np.mean(data, axis=1, out=output_arr)\<close>: the mean over the
  second axis; an output array has to have the shape of the result.
\<close>

definition avg_func :: "fval ndarray \<Rightarrow> fval ndarray option \<Rightarrow> error + fval ndarray" where
  "avg_func d output_arr =
     (case shape d of
        m # k # sp \<Rightarrow>
          (let P = prod_list sp;
               res = NDArray (m # sp)
                       (concat (map (\<lambda>blk. mean_rows P (chunks k P blk)) (chunks m (k * P) (flat d))))
           in if (case output_arr of None \<Rightarrow> False | Some out \<Rightarrow> shape out \<noteq> shape res)
              then Inl (ValueError ''output parameter has the wrong shape'')
              else Inr res)
      | _ \<Rightarrow> Inl (ValueError ''axis 1 is out of bounds for array''))"

text \<open>Slicing and indexing with a list of integers along axis 0.\<close>

definition slice_axis0 :: "int option \<Rightarrow> int option \<Rightarrow> int \<Rightarrow> 'a ndarray \<Rightarrow> error + 'a ndarray" where
  "slice_axis0 start stop step a =
     (case shape a of
        [] \<Rightarrow> Inl (IndexError ''too many indices for array'')
      | n # sp \<Rightarrow>
          if step = 0 then Inl (ValueError ''slice step cannot be zero'')
          else Inr (from_rows sp (py_slice start stop step (rows a))))"

definition index_positions :: "int list \<Rightarrow> nat \<Rightarrow> error + nat list" where
  "index_positions idxs n =
     (if list_all (\<lambda>i. py_pos n i \<noteq> None) idxs then Inr (map (\<lambda>i. the (py_pos n i)) idxs)
      else Inl (IndexError ''index is out of bounds''))"

text \<open>
  \<^verbatim>\<open>np.dot(a, b)\<close> for arrays of dimension at least 1: the sum of products over the last
  axis of \<open>a\<close> and the second-to-last axis of \<open>b\<close> (the only axis of a vector \<open>b\<close>).
  A 0-dimensional operand scales the other.
\<close>

definition np_dot :: "fval ndarray \<Rightarrow> fval ndarray \<Rightarrow> error + fval ndarray" where
  "np_dot a b =
     (if ndim a = 0 then Inr (map_arr (fmul (hd (flat a))) b)
      else if ndim b = 0 then Inr (map_arr (\<lambda>x. fmul x (hd (flat b))) a)
      else
       (let F = last (shape a);
            arows = chunks (prod_list (butlast (shape a))) F (flat a);
            bpre = (if ndim b = 1 then [] else butlast (butlast (shape b)));
            F' = (if ndim b = 1 then hd (shape b) else last (butlast (shape b)));
            K = (if ndim b = 1 then 1 else last (shape b));
            bblocks = chunks (prod_list bpre) (F' * K) (flat b)
        in if F \<noteq> F' then Inl (ValueError ''shapes not aligned'')
           else Inr (NDArray (butlast (shape a) @ bpre @ (if ndim b = 1 then [] else [K]))
                  (concat (map (\<lambda>r. concat (map (\<lambda>blk.
                      map (\<lambda>c. fsum (map2 fmul r (map (\<lambda>row. row ! c) (chunks F' K blk)))) [0..<K])
                    bblocks)) arows)))))"

text \<open>
  \<^verbatim>\<open>target[:] = src\<close>: the source is broadcast to the shape of the target, which keeps
  its shape; leading axes of length 1 in excess are dropped from the source.
\<close>

fun strip_ones :: "nat \<Rightarrow> nat list \<Rightarrow> nat list" where
  "strip_ones n [] = []"
| "strip_ones n (d # ds) = (if length (d # ds) > n \<and> d = 1 then strip_ones n ds else d # ds)"

definition np_assign_all :: "'a ndarray \<Rightarrow> 'a ndarray \<Rightarrow> error + 'a ndarray" where
  "np_assign_all target src =
     (let sh = strip_ones (ndim target) (shape src) in
      if broadcast_shapes (shape target) sh = Some (shape target)
      then Inr (NDArray (shape target) (broadcast_to (shape target) (NDArray sh (flat src))))
      else Inl (ValueError ''could not broadcast input array''))"

text \<open>\<^verbatim>\<open>data.var(axis=0, ddof=1)\<close>.\<close>

definition np_var_axis0 :: "fval ndarray \<Rightarrow> error + fval ndarray" where
  "np_var_axis0 d =
     (case shape d of
        [] \<Rightarrow> Inl (ValueError ''axis 0 is out of bounds for array of dimension 0'')
      | n # sp \<Rightarrow>
          Inr (NDArray sp
            (map (\<lambda>p. let col = column d p; m = fmean col
                      in fdiv (fsum (map (\<lambda>x. fmul (fsub x m) (fsub x m)) col)) (Fin (real (n - 1))))
                 [0..<prod_list sp])))"

subsection \<open>The kernels of the module \<^verbatim>\<open>Stats\<close>\<close>

text \<open>
  Modelled from the spec: \<^verbatim>\<open>Stats.run_mean\<close> is imported by the class and is not among
  the sources. The specification describes it as the centered moving average of window
  \<open>w\<close> along time, trimmed by \<open>e\<close> samples at each end so that the window never reads
  outside the series. The sample at time \<open>t\<close> (for \<open>e \<le> t < N - e\<close>) is the mean of the
  \<open>w\<close> samples that start at \<open>t - w div 2\<close>. An output array has to have the shape of
  the result, which it then holds.
\<close>

definition run_mean :: "fval ndarray \<Rightarrow> int \<Rightarrow> int \<Rightarrow> fval ndarray option \<Rightarrow> error + fval ndarray" where
  "run_mean d window_size trim_edge output_arr =
     (case shape d of
        [] \<Rightarrow> Inl (IndexError ''tuple index out of range'')
      | n # sp \<Rightarrow>
          (let e = nat trim_edge; w = nat window_size;
               res = from_rows sp
                       (map (\<lambda>t. mean_rows (prod_list sp) (take w (drop (t - w div 2) (rows d))))
                            [e..<n - e])
           in if (case output_arr of None \<Rightarrow> False | Some out \<Rightarrow> shape out \<noteq> shape res)
              then Inl (ValueError ''output array has the wrong shape'')
              else Inr res))"

text \<open>
  The other kernels (\<^verbatim>\<open>calc_anomaly\<close>, \<^verbatim>\<open>detrend_data\<close>, \<^verbatim>\<open>calc_eofs\<close> of \<^verbatim>\<open>Stats\<close>) are
  not among the sources either; the operations that call them take them as parameters.
  A kernel that is given an output array fills it and returns it.
\<close>

type_synonym anomaly_kernel =
  "fval ndarray \<Rightarrow> int \<Rightarrow> fval ndarray option \<Rightarrow> fval ndarray option
     \<Rightarrow> error + (fval ndarray \<times> fval ndarray)"

type_synonym detrend_kernel = "fval ndarray \<Rightarrow> fval ndarray option \<Rightarrow> error + fval ndarray"

type_synonym eofs_kernel =
  "fval ndarray \<Rightarrow> int \<Rightarrow> (string \<times> stat) list
     \<Rightarrow> error + (fval ndarray \<times> fval ndarray \<times> (string \<times> stat) list)"

subsection \<open>The transforms\<close>

text \<open>
  The end of a transform: the new stage is added to the history of the current one and
  becomes current; the data is returned.
\<close>

definition commit_stage :: "key \<Rightarrow> dataobj \<Rightarrow> fval ndarray outcome \<times> dataobj" where
  "commit_stage k s =
     then_do (add_to_operation_history (curr_data_key s) k s)
       (\<lambda>_ s1. let s2 = set_curr_data_key k s1 in (Returned (data s2), s2))"

text \<open>
  The allocation of the bin of a stage, \<^verbatim>\<open>self.<name> = self._new_empty_databin(...)\<close>,
  done when \<^verbatim>\<open>save and not self._save_none\<close>.
\<close>

definition alloc_stage_bin :: "bool \<Rightarrow> int list \<Rightarrow> key \<Rightarrow> dataobj \<Rightarrow> unit outcome \<times> dataobj" where
  "alloc_stage_bin save shp k s =
     (if save \<and> \<not> save_none s
      then then_do (new_empty_databin shp k s)
             (\<lambda>b s1. (Returned (), s1\<lparr>attrs := (attrs s1)(k \<mapsto> b)\<rparr>))
      else (Returned (), s))"

text \<open>
  The result of a computation that was given \<^verbatim>\<open>output_arr=self.<name>\<close>: when the
  attribute holds an array, that array (the one in the bin of the same name) holds the
  result.
\<close>

definition store_result :: "key \<Rightarrow> fval ndarray \<Rightarrow> dataobj \<Rightarrow> dataobj" where
  "store_result k res s =
     (case attrs s k of
        None \<Rightarrow> s\<lparr>data := res\<rparr>
      | Some _ \<Rightarrow> s\<lparr>data := res, attrs := (attrs s)(k \<mapsto> res),
                    data_bins := (if data_bins s k = None then data_bins s
                                  else (data_bins s)(k \<mapsto> res))\<rparr>)"

text \<open>
  \<^verbatim>\<open>setattr(self, key, new_bin)\<close> in \<^verbatim>\<open>time_average_resample\<close>, where the key is an
  argument of the caller. A key that is no member of the class makes a new attribute, and
  the key of a stage attribute (\<^verbatim>\<open>orig\<close>, \<^verbatim>\<open>detrended\<close>, ...) rebinds that attribute:
  both are entries of \<open>attrs\<close>. The key \<^verbatim>\<open>data\<close> rebinds the current data. Python refuses
  the assignment to \<^verbatim>\<open>__class__\<close> and \<^verbatim>\<open>__dict__\<close> (a TypeError, the value being neither a
  class nor a dictionary) and to \<^verbatim>\<open>__weakref__\<close> (an AttributeError). Any other member of the
  class, that is an instance attribute that the record keeps in a field of its own type, or
  a constant or a method of the class, would be replaced or hidden by the array, which the
  record cannot express. The embedding stops at such a key with \<open>NotRepresented\<close>, which
  is no exception of the program, and nothing is stated about these calls.
\<close>

definition instance_fields :: "key list" where
  "instance_fields =
     [''data'', ''_full_shp'', ''forced_flat'', ''time_units'', ''time_cal'', ''cell_area'',
      ''irregular_grid'', ''_coord_grids'', ''_fill_value'', ''_save_none'', ''_data_bins'',
      ''_curr_data_key'', ''_ops_performed'', ''_altered_time_coords'', ''_start_time_edge'',
      ''_end_time_edge'', ''_eofs'', ''_svals'', ''_eof_stats'', ''_std_scaling'', ''climo'', ''_leading_time'', ''_time_shp'', ''_spatial_shp'',
      ''_flat_spatial_shp'', ''_dim_idx'', ''_dim_coords'', ''valid_data'', ''is_masked'']"

definition class_members :: "key list" where
  "class_members =
     [''TIME'', ''LEVEL'', ''LAT'', ''LON'', ''_COMPRESSED'', ''_ORIGDATA'', ''_DETRENDED'',
      ''_AWGHT'', ''_RUNMEAN'', ''_ANOMALY'', ''_CLIMO'', ''_STD'', ''_EOFPROJ'',
      ''_match_dims'', ''_set_curr_data_key'', ''_add_to_operation_history'',
      ''_new_empty_databin'', ''_new_databin'', ''_gen_composite_mask'',
      ''_check_invalid_data'', ''_data_masking'', ''_compress_to_valid_data'',
      ''_flatten_curr_data'', ''_set_time_coord'', ''_detrend_func'', ''_avg_func'',
      ''time_average_resample'', ''train_test_split_random'', ''inflate_full_grid'',
      ''calc_running_mean'', ''calc_anomaly'', ''detrend_data'', ''area_weight_data'',
      ''standardize_data'', ''eof_proj_data'', ''get_eof_stats'', ''get_dim_coords'',
      ''get_coordinate_grids'', ''reset_data'', ''is_leading_time'', ''save_dataobj_pckl'',
      ''copy'', ''_helper_copy_new_databin'', ''_load_cell_area'', ''from_netcdf'',
      ''from_hdf5'', ''from_pickle'', ''from_posterior_ncf'', ''from_posterior_npz'']"

definition object_slots :: "key list" where
  "object_slots = [''__class__'', ''__dict__'', ''__weakref__'']"

definition reserved_name :: "key \<Rightarrow> bool" where
  "reserved_name k =
     (k \<in> set instance_fields \<or> k \<in> set class_members \<or> k \<in> set object_slots)"

definition setattr_array :: "key \<Rightarrow> fval ndarray \<Rightarrow> dataobj \<Rightarrow> unit outcome \<times> dataobj" where
  "setattr_array k b s =
     (if k = ''data'' then (Returned (), s\<lparr>data := b\<rparr>)
      else if k = ''__class__'' then (Raised (TypeError ''__class__ must be set to a class''), s)
      else if k = ''__dict__'' then (Raised (TypeError ''__dict__ must be set to a dictionary''), s)
      else if k = ''__weakref__'' then (Raised (AttributeError ''__weakref__''), s)
      else if reserved_name k then (Raised (NotRepresented k), s)
      else (Returned (), s\<lparr>attrs := (attrs s)(k \<mapsto> b)\<rparr>))"

text \<open>
  \<^verbatim>\<open>time_average_resample\<close>. The mean is written into the new bin, which is the entry of
  \<^verbatim>\<open>_data_bins\<close> under the key and the value of the attribute of that name (for the key
  \<^verbatim>\<open>data\<close> the attribute has been rebound by then, and only the entry of the bins is left).
\<close>

definition time_average_resample :: "key \<Rightarrow> int \<Rightarrow> int \<Rightarrow> dataobj \<Rightarrow> fval ndarray outcome \<times> dataobj" where
  "time_average_resample k nsamples_in_avg shift s =
     (if \<not> leading_time s
      then (Raised (ValueError ''Can only perform a resample operation when data has a leading sampling dimension.''), s)
      else if shift < 0
      then (Raised (ValueError ''Currently only positive shifts are supported for resampling.''), s)
      else case time_shp s of
        [] \<Rightarrow> (Raised (IndexError ''list index out of range''), s)
      | t # _ \<Rightarrow>
         (let nsamples = t - shift in
          if nsamples_in_avg = 0 then (Raised ZeroDivisionError, s)
          else
           (let new_nsamples = nsamples div nsamples_in_avg;
                r = nsamples mod nsamples_in_avg;
                end_cutoff = (if r = 0 then None else Some (- r));
                spatial = map int (tl (shape (data s)));
                new_shape = new_nsamples # spatial;
                avg_shape = new_nsamples # nsamples_in_avg # spatial
            in then_do (new_empty_databin new_shape k s) (\<lambda>new_bin s1.
               then_do (setattr_array k new_bin s1) (\<lambda>_ s2.
               then_do (lift (slice_axis0 (Some shift) end_cutoff 1 (data s2)) s2) (\<lambda>d1 s3.
               let s4 = s3\<lparr>data := d1\<rparr> in
               then_do (lift (np_reshape avg_shape d1) s4) (\<lambda>d2 s5.
               let s6 = s5\<lparr>data := d2\<rparr> in
               then_do (lift (avg_func d2 (Some new_bin)) s6) (\<lambda>d3 s7.
               let s8 = (if k = ''data''
                         then s7\<lparr>data := d3, data_bins := (data_bins s7)(k \<mapsto> d3)\<rparr>
                         else store_result k d3 s7)\<lparr>time_shp := [new_nsamples]\<rparr> in
               case dim_coords s8 of
                 None \<Rightarrow> (Raised (AttributeError ''_dim_coords''), s8)
               | Some dc \<Rightarrow>
                  (case map_of dc TIME of
                     None \<Rightarrow> (Raised (KeyError TIME), s8)
                   | Some (time_idx, time_coord) \<Rightarrow>
                      (let new_time_coord = py_slice (Some shift) end_cutoff nsamples_in_avg time_coord;
                           s9 = s8\<lparr>dim_coords := Some (AList.update TIME (time_idx, new_time_coord) dc),
                                   altered_time_coords := (altered_time_coords s8)(k \<mapsto> new_time_coord)\<rparr>
                       in commit_stage k s9))))))))))"

text \<open>
  The trim of the running mean: \<^verbatim>\<open>int(np.ceil(edge_pad / float(year_len)) * year_len)\<close>
  with \<^verbatim>\<open>edge_pad = window_size // 2\<close> and the year length raised to 1 when it is less.
  The code computes the quotient and the product in double precision. Here they are
  computed exactly, which is what the code computes as long as the window and the year
  length are below \<open>2 ^ 52\<close>: the two operands and the product are then integers that a double
  holds exactly, and the rounded quotient has the ceiling of the exact one. The properties
  of the trim are stated for such arguments only.
\<close>

definition edge_trim :: "int \<Rightarrow> int \<Rightarrow> int" where
  "edge_trim window_size year_len =
     (let yl = (if year_len < 1 then 1 else year_len);
          edge_pad = window_size div 2
      in (- ((- edge_pad) div yl)) * yl)"

definition calc_running_mean :: "int \<Rightarrow> int \<Rightarrow> bool \<Rightarrow> dataobj \<Rightarrow> fval ndarray outcome \<times> dataobj" where
  "calc_running_mean window_size year_len save s =
     (if \<not> leading_time s
      then (Raised (ValueError ''Can only perform a running mean when data has a leading sampling dimension.''), s)
      else
       (let e = edge_trim window_size year_len in
        case shape (data s) of
          [] \<Rightarrow> (Raised (IndexError ''tuple index out of range''), s)
        | n # sp \<Rightarrow>
           (let new_time_len = int n - e * 2 in
            case dim_coords s of
              None \<Rightarrow> (Raised (AttributeError ''_dim_coords''), s)
            | Some dc \<Rightarrow>
               (case map_of dc TIME of
                  None \<Rightarrow> (Raised (KeyError TIME), s)
                | Some (time_idx, old_time_coord) \<Rightarrow>
                   (let new_time_coord = py_slice (Some e) (Some (- e)) 1 old_time_coord;
                        s1 = s\<lparr>dim_coords := Some (AList.update TIME (time_idx, new_time_coord) dc)\<rparr>
                    in then_do (alloc_stage_bin save (new_time_len # map int sp) RUNMEAN s1) (\<lambda>_ s2.
                       then_do (lift (run_mean (data s2) window_size e (attrs s2 RUNMEAN)) s2) (\<lambda>res s3.
                       let s4 = (store_result RUNMEAN res s3)
                                  \<lparr>time_shp := [new_time_len], start_time_edge := Some e,
                                   end_time_edge := Some (- e)\<rparr> in
                       then_do (commit_stage RUNMEAN s4) (\<lambda>_ s5.
                       let s6 = s5\<lparr>altered_time_coords :=
                                     (altered_time_coords s5)(RUNMEAN \<mapsto> new_time_coord)\<rparr>
                       in (Returned (data s6), s6)))))))))"

definition calc_anomaly ::
  "anomaly_kernel \<Rightarrow> int \<Rightarrow> bool \<Rightarrow> fval ndarray option \<Rightarrow> dataobj \<Rightarrow> fval ndarray outcome \<times> dataobj" where
  "calc_anomaly kern year_len save climo_in s =
     (if \<not> leading_time s
      then (Raised (ValueError ''Can only perform anomaly calculation with a specified leading sampling dimension''), s)
      else then_do (alloc_stage_bin save (map int (shape (data s))) ANOMALY s) (\<lambda>_ s1.
           case kern (data s1) (if year_len < 1 then 1 else year_len) climo_in (attrs s1 ANOMALY) of
             Inl e \<Rightarrow> (Raised e, s1)
           | Inr (res, cl) \<Rightarrow> commit_stage ANOMALY ((store_result ANOMALY res s1)\<lparr>climo := Some cl\<rparr>)))"

definition detrend_data :: "detrend_kernel \<Rightarrow> bool \<Rightarrow> dataobj \<Rightarrow> fval ndarray outcome \<times> dataobj" where
  "detrend_data kern save s =
     (if \<not> leading_time s
      then (Raised (ValueError ''Can only perform detrending with a specified leading sampling dimension''), s)
      else then_do (alloc_stage_bin save (map int (shape (data s))) DETRENDED s) (\<lambda>_ s1.
           case kern (data s1) (attrs s1 DETRENDED) of
             Inl e \<Rightarrow> (Raised e, s1)
           | Inr res \<Rightarrow> commit_stage DETRENDED (store_result DETRENDED res s1)))"

text \<open>
  \<^verbatim>\<open>get_coordinate_grids\<close> for a single spatial key: the grid given at construction, or
  the coordinate vector broadcast over the spatial shape; compressed to the valid
  locations or flattened on request.
\<close>

fun expand_grid_dims :: "int \<Rightarrow> nat \<Rightarrow> nat list \<Rightarrow> 'a ndarray \<Rightarrow> error + 'a ndarray" where
  "expand_grid_dims idx axis [] g = Inr g"
| "expand_grid_dims idx axis (_ # sp) g =
     (if int axis \<noteq> idx
      then (case np_expand_dims axis g of
              Inl e \<Rightarrow> Inl e
            | Inr g' \<Rightarrow> expand_grid_dims idx (Suc axis) sp g')
      else expand_grid_dims idx (Suc axis) sp g)"

definition get_coordinate_grids :: "key \<Rightarrow> bool \<Rightarrow> bool \<Rightarrow> dataobj \<Rightarrow> error + fval ndarray" where
  "get_coordinate_grids k compressed flat_arg s =
     (case dim_idx s of
        None \<Rightarrow> Inl (AttributeError ''keys'')
      | Some di \<Rightarrow>
         (case map_of di k of
            None \<Rightarrow> Inl (KeyError ''No matching dimension for key was found.'')
          | Some idx0 \<Rightarrow>
             ebind
               (case (case coord_grids s of None \<Rightarrow> None | Some cg \<Rightarrow> cg k) of
                  Some g \<Rightarrow> Inr g
                | None \<Rightarrow>
                   (let idx = (if leading_time s then idx0 - 1 else idx0) in
                    case dim_coords s of
                      None \<Rightarrow> Inl (AttributeError ''_dim_coords'')
                    | Some dc \<Rightarrow>
                       (case map_of dc k of
                          None \<Rightarrow> Inl (KeyError k)
                        | Some (_, coords) \<Rightarrow>
                           ebind (expand_grid_dims idx 0 (spatial_shp s)
                                    (NDArray [length coords] (map Fin coords)))
                             (\<lambda>g. np_binop fmul
                                    (NDArray (spatial_shp s)
                                       (replicate (prod_list (spatial_shp s)) (Fin 1))) g))))
               (\<lambda>grid.
                  if is_masked s \<and> compressed then
                    (case valid_data s of
                       None \<Rightarrow> Inr (NDArray [1, asize grid] (flat grid))
                     | Some v \<Rightarrow>
                         if length v \<noteq> asize grid
                         then Inl (IndexError ''boolean index did not match indexed array'')
                         else Inr (NDArray [count_true v] (map snd (filter fst (zip v (flat grid))))))
                  else if flat_arg then Inr (NDArray [asize grid] (flat grid))
                  else Inr grid)))"

text \<open>
  \<^verbatim>\<open>self.<name>[:] = result; self.data = self.<name>\<close> when the attribute holds an array,
  \<^verbatim>\<open>self.data = result\<close> otherwise.
\<close>

definition assign_result :: "key \<Rightarrow> fval ndarray \<Rightarrow> dataobj \<Rightarrow> unit outcome \<times> dataobj" where
  "assign_result k res s =
     (case attrs s k of
        None \<Rightarrow> (Returned (), s\<lparr>data := res\<rparr>)
      | Some bin \<Rightarrow>
          (case np_assign_all bin res of
             Inl e \<Rightarrow> (Raised e, s)
           | Inr bin' \<Rightarrow> (Returned (), store_result k bin' s)))"

definition area_weight_data :: "bool \<Rightarrow> bool \<Rightarrow> dataobj \<Rightarrow> fval ndarray outcome \<times> dataobj" where
  "area_weight_data use_sqrt save s =
     (case (if cell_area s = None \<and> irregular_grid s
            then Inl (ValueError ''Cell areas are required to area-weight a non-regular grid.'')
            else if cell_area s = None then
              (case dim_idx s of
                 None \<Rightarrow> Inl (AttributeError ''keys'')
               | Some di \<Rightarrow>
                   if LAT \<notin> set (map fst di)
                   then Inl (ValueError ''Cell area or latitude dimension are not specified.  Required for grid cell area weighting.'')
                   else Inr True)
            else Inr False) of
        Inl e \<Rightarrow> (Raised e, s)
      | Inr do_lat_based \<Rightarrow>
          then_do (alloc_stage_bin save (map int (shape (data s))) AWGHT s) (\<lambda>_ s1.
          then_do (lift (if do_lat_based
                         then map_sum id (map_arr (\<lambda>x. fabs (fcos_radians x)))
                                (get_coordinate_grids LAT True (forced_flat s1) s1)
                         else (case cell_area s1 of
                                 None \<Rightarrow> Inl (TypeError ''cell_area is None'')
                               | Some ca \<Rightarrow> Inr (map_arr (\<lambda>x. fdiv x (fsum (flat ca))) ca))) s1)
            (\<lambda>scale0 s2.
          let scale = (if use_sqrt then map_arr fsqrt scale0 else scale0) in
          then_do (lift (np_binop fmul (data s2) scale) s2) (\<lambda>result s3.
          then_do (assign_result AWGHT result s3) (\<lambda>_ s4.
          commit_stage AWGHT s4)))))"

definition standardize_data :: "fval option \<Rightarrow> bool \<Rightarrow> dataobj \<Rightarrow> fval ndarray outcome \<times> dataobj" where
  "standardize_data std_factor save s =
     then_do (alloc_stage_bin save (map int (shape (data s))) STD s) (\<lambda>_ s1.
     then_do (lift (case std_factor of
                      Some f \<Rightarrow> Inr f
                    | None \<Rightarrow> map_sum id (\<lambda>grid_var. fdiv (Fin 1) (fsqrt (fsum (flat grid_var))))
                                (np_var_axis0 (data s1))) s1) (\<lambda>scaling s2.
     let grid_standardized = map_arr (\<lambda>x. fmul x scaling) (data s2);
         s3 = s2\<lparr>std_scaling := Some scaling\<rparr> in
     then_do (if attrs s3 STD \<noteq> None \<and> save \<and> \<not> save_none s3
              then assign_result STD grid_standardized s3
              else (Returned (), s3\<lparr>data := grid_standardized\<rparr>)) (\<lambda>_ s4.
     commit_stage STD s4)))"

text \<open>
  The number of modes of \<^verbatim>\<open>eof_proj_data\<close>: the argument, or with a basis given its
  number of columns, after the test of its number of rows against the feature axis of the
  data.
\<close>

definition eof_num_modes :: "int \<Rightarrow> fval ndarray option \<Rightarrow> fval ndarray \<Rightarrow> error + int" where
  "eof_num_modes num_eofs eof_in d =
     (case eof_in of
        None \<Rightarrow> Inr num_eofs
      | Some ei \<Rightarrow>
          (case shape ei of
             [] \<Rightarrow> Inl (IndexError ''tuple index out of range'')
           | r # rest \<Rightarrow>
               (case shape d of
                  _ # f # _ \<Rightarrow>
                    if r \<noteq> f then Inl (ValueError ''Feature dimension mismatch for input EOFs'')
                    else (case rest of
                            [] \<Rightarrow> Inl (IndexError ''tuple index out of range'')
                          | c # _ \<Rightarrow> Inr (int c))
                | _ \<Rightarrow> Inl (IndexError ''tuple index out of range''))))"

definition eof_proj_data ::
  "eofs_kernel \<Rightarrow> int \<Rightarrow> fval ndarray option \<Rightarrow> bool \<Rightarrow> key option \<Rightarrow> key option \<Rightarrow> dataobj
     \<Rightarrow> fval ndarray outcome \<times> dataobj" where
  "eof_proj_data calc_eofs num_eofs eof_in save calc_on_key proj_key s =
     (if \<not> leading_time s
      then (Raised (ValueError ''Can only perform eof calculation with a specified leading sampling dimension''), s)
      else
        then_do (if calc_on_key = None \<and> curr_data_key s \<noteq> Some AWGHT
                 then then_do (reset_data AWGHT s) (\<lambda>_ s'. (Returned (Some AWGHT), s'))
                 else (Returned calc_on_key, s)) (\<lambda>calc_on s1.
        then_do (if ndim (data s1) > 2 then flatten_curr_data s1 else (Returned (), s1)) (\<lambda>_ s2.
        then_do (lift (eof_num_modes num_eofs eof_in (data s2)) s2) (\<lambda>k s3.
        then_do (case eof_in of
                   None \<Rightarrow>
                     (let stats0 = [(''calc_on'', StatKey calc_on)] in
                      case calc_eofs (data s3) k stats0 of
                        Inl e \<Rightarrow> (Raised e, s3\<lparr>eof_stats := stats0\<rparr>)
                      | Inr (E, S, stats) \<Rightarrow>
                          (Returned (), s3\<lparr>eof_stats := stats, eofs := Some E, svals := Some S\<rparr>))
                 | Some ei \<Rightarrow> (Returned (), s3\<lparr>eofs := Some ei\<rparr>)) (\<lambda>_ s4.
        then_do (case proj_key of
                   None \<Rightarrow> (Returned (), s4)
                 | Some pk \<Rightarrow> then_do (reset_data pk s4) (\<lambda>_ s'. (Returned (), s'))) (\<lambda>_ s5.
        then_do (case shape (data s5) of
                   [] \<Rightarrow> (if save \<and> \<not> save_none s5
                          then (Raised (IndexError ''tuple index out of range''), s5)
                          else (Returned (), s5))
                 | n # _ \<Rightarrow> alloc_stage_bin save [int n, k] EOFPROJ s5) (\<lambda>_ s6.
        case eofs s6 of
          None \<Rightarrow> (Raised (TypeError ''unsupported operand type''), s6)
        | Some E \<Rightarrow>
            then_do (lift (np_dot (data s6) E) s6) (\<lambda>proj s7.
            then_do (assign_result EOFPROJ proj s7) (\<lambda>_ s8.
            commit_stage EOFPROJ s8)))))))))"

subsection \<open>Construction\<close>

text \<open>\<^verbatim>\<open>_match_dims\<close>: the axis of every dimension key whose vector has the length of that axis.\<close>

fun match_dims :: "nat list \<Rightarrow> (key \<times> int \<times> coord) list \<Rightarrow> error + (key \<times> int) list" where
  "match_dims shp [] = Inr []"
| "match_dims shp ((k, i, c) # rest) =
     (case py_index shp i of
        None \<Rightarrow> Inl (IndexError ''tuple index out of range'')
      | Some n \<Rightarrow> ebind (match_dims shp rest)
                   (\<lambda>r. Inr (if n = length c then (k, i) # r else r)))"

definition to_sum :: "'a outcome \<times> 's \<Rightarrow> error + ('a \<times> 's)" where
  "to_sum m = (case m of (Raised e, _) \<Rightarrow> Inl e | (Returned x, s) \<Rightarrow> Inr (x, s))"

text \<open>The part of \<^verbatim>\<open>__init__\<close> that reads \<^verbatim>\<open>dim_coords\<close>.\<close>

definition init_dims :: "fval ndarray \<Rightarrow> (key \<times> int \<times> coord) list option \<Rightarrow> dataobj \<Rightarrow> error + dataobj" where
  "init_dims d dco s =
     (case dco of
        None \<Rightarrow> Inr (s\<lparr>leading_time := False, time_shp := [], spatial_shp := shape d,
                       dim_idx := None\<rparr>)
      | Some dc \<Rightarrow>
          ebind
            (case map_of dc TIME of
               Some (time_idx, time_coord) \<Rightarrow>
                 if time_idx \<noteq> 0
                 then Inl (ValueError ''Sampling dimension must always be the leading dimension if provided.'')
                 else (case shape d of
                         [] \<Rightarrow> Inl (IndexError ''tuple index out of range'')
                       | n # sp \<Rightarrow>
                           Inr (s\<lparr>leading_time := True, time_shp := [int n], spatial_shp := sp,
                                  altered_time_coords :=
                                    (altered_time_coords s)(ORIGDATA \<mapsto> time_coord)\<rparr>))
             | None \<Rightarrow> Inr (s\<lparr>leading_time := False, time_shp := [], spatial_shp := shape d\<rparr>))
            (\<lambda>s1. ebind (match_dims (shape d) dc)
                    (\<lambda>di. Inr (s1\<lparr>dim_idx := Some di, dim_coords := Some dc\<rparr>))))"

text \<open>
  The part of \<^verbatim>\<open>__init__\<close> that handles a valid-data mask given by the caller: the test
  of its dimension, the comparison of its shape with the spatial shape, and the
  application of the mask or the test of finiteness. It yields the data, the flag
  \<^verbatim>\<open>compressed\<close> and the object.
\<close>

fun mask_dims_compressed :: "(nat \<times> nat) list \<Rightarrow> bool \<Rightarrow> error + bool" where
  "mask_dims_compressed [] c = Inr c"
| "mask_dims_compressed ((dat_dim, mask_dim) # rest) c =
     (if dat_dim > mask_dim
      then Inl (ValueError ''Encountered data dimension larger thanequivalent masked dimension.'')
      else mask_dims_compressed rest (c \<or> dat_dim < mask_dim))"

definition init_valid_data ::
  "fval ndarray \<Rightarrow> bool ndarray option \<Rightarrow> dataobj \<Rightarrow> error + (fval ndarray \<times> bool \<times> dataobj)" where
  "init_valid_data d vdo s =
     (case vdo of
        None \<Rightarrow> Inr (d, False, s)
      | Some vd \<Rightarrow>
          if ndim vd \<le> 3
          then Inl (ValueError ''Valid data mask should not have more than 3 dimensions'')
          else
            ebind (mask_dims_compressed (zip (spatial_shp s) (shape vd)) False) (\<lambda>compressed.
            ebind (if \<not> compressed then
                     ebind (np_binop (\<lambda>one b. one \<and> b)
                              (NDArray (shape d) (replicate (asize d) True)) vd) (\<lambda>full_valid.
                       if shape full_valid \<noteq> shape d
                       then Inl (IndexError ''boolean index did not match indexed array'')
                       else Inr (NDArray (shape d)
                                   (map2 (\<lambda>x b. if b then x else NaN) (flat d) (flat full_valid)), s))
                   else if \<not> list_all isfinite (flat d)
                   then Inl (ValueError ''Non-finite value encountered in compressed data.'')
                   else Inr (d, s\<lparr>full_shp := time_shp s @ map int (shape vd)\<rparr>))
              (\<lambda>(d', s'). Inr (d', compressed, s'\<lparr>valid_data := Some (flat vd), is_masked := True\<rparr>))))"

text \<open>The end of \<^verbatim>\<open>__init__\<close> for masked data that is not compressed yet.\<close>

definition init_compress :: "dataobj \<Rightarrow> error + dataobj" where
  "init_compress s =
     (case valid_data s of
        None \<Rightarrow> Inl (AttributeError ''sum'')
      | Some v \<Rightarrow>
          ebind (if \<not> save_none s then
                   ebind (if leading_time s
                          then (case time_shp s of
                                  [] \<Rightarrow> Inl (IndexError ''list index out of range'')
                                | t # _ \<Rightarrow> Inr [t, int (count_true v)])
                          else Inr [int (count_true v)])
                     (\<lambda>new_shp. map_sum id snd (to_sum (alloc_stage_bin True new_shp COMPRESSED s)))
                 else Inr s) (\<lambda>s1.
          ebind (to_sum (compress_to_valid_data (data s1) v (attrs s1 COMPRESSED) s1)) (\<lambda>(res, s2).
          map_sum id snd (to_sum (then_do (add_to_operation_history (curr_data_key s2) COMPRESSED
                                            (store_result COMPRESSED res s2))
                                   (\<lambda>_ s3. (Returned (), set_curr_data_key COMPRESSED s3)))))))"

definition init ::
  "fval ndarray \<Rightarrow> (key \<times> int \<times> coord) list option \<Rightarrow> (key \<rightharpoonup> fval ndarray) option
     \<Rightarrow> bool ndarray option \<Rightarrow> bool \<Rightarrow> fval ndarray option \<Rightarrow> bool \<Rightarrow> bool
     \<Rightarrow> string option \<Rightarrow> string option \<Rightarrow> fval option \<Rightarrow> error + dataobj" where
  "init data_in dim_coords_in coord_grids_in valid_data_in force_flat cell_area_in
        irregular_grid_in save_none_in time_units_in time_cal_in fill_value_in =
     (if ndim data_in > 4 then Inl (AssertionError ''Maximum of 4 dimensions are allowed.'')
      else
       (let s0 = \<lparr> full_shp = map int (shape data_in), forced_flat = force_flat,
                   time_units = time_units_in, time_cal = time_cal_in,
                   cell_area = cell_area_in, irregular_grid = irregular_grid_in,
                   coord_grids = coord_grids_in, fill_value = fill_value_in,
                   save_none = save_none_in, data_bins = Map.empty, curr_data_key = None,
                   ops_performed = Map.empty, altered_time_coords = Map.empty,
                   start_time_edge = None, end_time_edge = None, eofs = None, svals = None,
                   eof_stats = [], std_scaling = None, attrs = Map.empty, climo = None,
                   leading_time = False, time_shp = [], spatial_shp = [],
                   flat_spatial_shp = [], dim_idx = None, dim_coords = None,
                   valid_data = None, is_masked = False, data = data_in \<rparr>
        in ebind (init_dims data_in dim_coords_in s0) (\<lambda>s1.
           let s2 = s1\<lparr>flat_spatial_shp := [prod_list (spatial_shp s1)]\<rparr> in
           ebind (init_valid_data data_in valid_data_in s2) (\<lambda>(d, compressed, s3).
           case data_masking d s3 of
             Raised e \<Rightarrow> Inl e
           | Returned (masked, valid) \<Rightarrow>
              (let s4 = s3\<lparr>is_masked := masked, valid_data := map_option flat valid, data := d\<rparr> in
               ebind (if force_flat \<or> is_masked s4
                      then map_sum id snd (to_sum (flatten_curr_data s4))
                      else Inr s4) (\<lambda>s5.
               let (orig, s6) = new_databin (data s5) ORIGDATA s5;
                   s7 = s6\<lparr>attrs := (attrs s6)(ORIGDATA \<mapsto> orig)\<rparr> in
               ebind (map_sum id snd (to_sum (add_to_operation_history None ORIGDATA s7))) (\<lambda>s8.
               let s9 = set_curr_data_key ORIGDATA s8 in
               if compressed then Inr (s9\<lparr>attrs := (attrs s9)(COMPRESSED \<mapsto> data s9)\<rparr>)
               else if is_masked s9 then init_compress s9
               else map_sum id snd (to_sum (reset_data ORIGDATA s9)))))))))"

subsection \<open>Copying\<close>

text \<open>The argument \<^verbatim>\<open>data_indices\<close>: a list of integers or a slice object.\<close>

datatype selection = Indices "int list" | Slice "int option" "int option" "int option"

definition sample_len_of :: "selection \<Rightarrow> error + int" where
  "sample_len_of sel =
     (case sel of
        Indices idxs \<Rightarrow> Inr (int (length idxs))
      | Slice start stop _ \<Rightarrow>
          (case (start, stop) of
             (Some a, Some b) \<Rightarrow> Inr (b - a)
           | _ \<Rightarrow> Inl (TypeError ''unsupported operand type(s) for -'')))"

definition select_positions :: "selection \<Rightarrow> nat \<Rightarrow> error + nat list" where
  "select_positions sel n =
     (case sel of
        Indices idxs \<Rightarrow> index_positions idxs n
      | Slice start stop step \<Rightarrow>
          (let st = (case step of None \<Rightarrow> 1 | Some v \<Rightarrow> v) in
           if st = 0 then Inl (ValueError ''slice step cannot be zero'')
           else Inr (slice_positions start stop st n)))"

text \<open>The samples of an array (along axis 0) or of a vector that a selection picks.\<close>

definition select_list :: "selection \<Rightarrow> 'a list \<Rightarrow> error + 'a list" where
  "select_list sel xs = map_sum id (map (\<lambda>i. xs ! i)) (select_positions sel (length xs))"

definition select_axis0 :: "selection \<Rightarrow> 'a ndarray \<Rightarrow> error + 'a ndarray" where
  "select_axis0 sel a =
     (case shape a of
        [] \<Rightarrow> Inl (IndexError ''too many indices for array'')
      | n # sp \<Rightarrow> map_sum id (from_rows sp) (select_list sel (rows a)))"

text \<open>Whether the EOF attributes belong to the current stage, as \<^verbatim>\<open>copy\<close> tests it.\<close>

definition eof_relevant :: "dataobj \<Rightarrow> error + bool" where
  "eof_relevant s =
     (case curr_data_key s of
        None \<Rightarrow> Inl (KeyError ''None'')
      | Some current_dkey \<Rightarrow>
          if current_dkey = EOFPROJ then Inr True
          else (case ops_performed s current_dkey of
                  None \<Rightarrow> Inl (KeyError current_dkey)
                | Some ops \<Rightarrow> Inr (EOFPROJ \<in> set ops)))"

definition copy :: "selection option \<Rightarrow> dataobj \<Rightarrow> error + dataobj" where
  "copy data_indices s =
     (if data_indices \<noteq> None \<and> \<not> leading_time s
      then Inl (ValueError ''Cannot copy with specified indices for subsamplewhen data does not contain leading sampling dim.'')
      else
        ebind (eof_relevant s) (\<lambda>keep_eofs.
        case curr_data_key s of
          None \<Rightarrow> Inl (KeyError ''None'')
        | Some current_dkey \<Rightarrow>
           (case dim_coords s of
              None \<Rightarrow> Inl (KeyError ''_dim_coords'')
            | Some dc \<Rightarrow>
               (case ops_performed s current_dkey of
                  None \<Rightarrow> Inl (KeyError current_dkey)
                | Some ops \<Rightarrow>
                   (case map_of dc TIME of
                      None \<Rightarrow> Inl (KeyError TIME)
                    | Some (time_idx, time_coord) \<Rightarrow>
                       ebind
                         (case data_indices of
                            None \<Rightarrow> Inr (time_coord, dc, time_shp s, data s)
                          | Some sel \<Rightarrow>
                              ebind (sample_len_of sel) (\<lambda>sample_len.
                              ebind (select_list sel time_coord) (\<lambda>tc'.
                              ebind (select_axis0 sel (data s)) (\<lambda>d'.
                                Inr (tc', AList.update TIME (time_idx, tc') dc, [sample_len], d')))))
                         (\<lambda>(tc', dc', tshp', d').
                            Inr (s\<lparr> eofs := (if keep_eofs then eofs s else None),
                                    svals := (if keep_eofs then svals s else None),
                                    eof_stats := (if keep_eofs then eof_stats s else []),
                                    attrs := (\<lambda>k. if k = current_dkey then Some d'
                                                   else if data_bins s k \<noteq> None then None
                                                   else attrs s k),
                                    data_bins := [current_dkey \<mapsto> d'],
                                    ops_performed := [current_dkey \<mapsto> ops],
                                    altered_time_coords := [current_dkey \<mapsto> tc'],
                                    dim_coords := Some dc', time_shp := tshp', data := d',
                                    curr_data_key := Some current_dkey \<rparr>)))))))"

subsection \<open>The resolution of the time coordinate, in the words of the specification\<close>

text \<open>
  The nearest ancestor in a history chain (oldest first) that has a recorded time
  coordinate, and the coordinate the specification resolves for a stage key: the key's own
  entry when there is one, otherwise that of the nearest such ancestor.
\<close>

definition nearest_ancestor :: "(key \<rightharpoonup> coord) \<Rightarrow> key list \<Rightarrow> coord option" where
  "nearest_ancestor alt chain =
     (let present = filter (\<lambda>a. alt a \<noteq> None) chain
      in if present = [] then None else alt (last present))"

definition spec_time_coord :: "key \<Rightarrow> dataobj \<Rightarrow> coord option" where
  "spec_time_coord k s =
     (case altered_time_coords s k of
        Some tc \<Rightarrow> Some tc
      | None \<Rightarrow> (case ops_performed s k of None \<Rightarrow> None
                 | Some chain \<Rightarrow> nearest_ancestor (altered_time_coords s) chain))"

text \<open>The time coordinate of an object: the vector under \<^verbatim>\<open>TIME\<close> in \<^verbatim>\<open>_dim_coords\<close>.\<close>

definition time_coord_of :: "dataobj \<Rightarrow> coord option" where
  "time_coord_of s = (case dim_coords s of None \<Rightarrow> None
                      | Some dc \<Rightarrow> map_option snd (map_of dc TIME))"


subsection \<open>Objects used as concrete inputs\<close>

text \<open>A dense object of four samples over two locations, as construction leaves it.\<close>

definition example_obj :: dataobj where
  "example_obj =
     \<lparr> full_shp = [4, 2], forced_flat = False, time_units = None, time_cal = None,
       cell_area = None, irregular_grid = False, coord_grids = None, fill_value = None,
       save_none = False,
       data_bins = [ORIGDATA \<mapsto> NDArray [4, 2] (map Fin [1, 2, 3, 4, 5, 6, 7, 8])],
       curr_data_key = Some ORIGDATA,
       ops_performed = [ORIGDATA \<mapsto> [ORIGDATA]],
       altered_time_coords = [ORIGDATA \<mapsto> [10, 20, 30, 40]],
       start_time_edge = None, end_time_edge = None, eofs = None, svals = None,
       eof_stats = [], std_scaling = None,
       attrs = [ORIGDATA \<mapsto> NDArray [4, 2] (map Fin [1, 2, 3, 4, 5, 6, 7, 8])],
       climo = None, leading_time = True, time_shp = [4], spatial_shp = [2],
       flat_spatial_shp = [2], dim_idx = Some [(TIME, 0)],
       dim_coords = Some [(TIME, 0, [10, 20, 30, 40])],
       valid_data = None, is_masked = False,
       data = NDArray [4, 2] (map Fin [1, 2, 3, 4, 5, 6, 7, 8]) \<rparr>"

text \<open>The same object with a detrended stage in its history.\<close>

definition example_obj2 :: dataobj where
  "example_obj2 =
     example_obj\<lparr>ops_performed := [ORIGDATA \<mapsto> [ORIGDATA], DETRENDED \<mapsto> [ORIGDATA, DETRENDED]]\<rparr>"

text \<open>
  A dense object without a time axis: three locations with their cell areas, as
  construction leaves it.
\<close>

definition example_static :: dataobj where
  "example_static =
     \<lparr> full_shp = [3], forced_flat = False, time_units = None, time_cal = None,
       cell_area = Some (NDArray [3] [Fin 1, Fin 1, Fin 2]), irregular_grid = False,
       coord_grids = None, fill_value = None, save_none = False,
       data_bins = [ORIGDATA \<mapsto> NDArray [3] [Fin 4, Fin 8, Fin 6]],
       curr_data_key = Some ORIGDATA,
       ops_performed = [ORIGDATA \<mapsto> [ORIGDATA]],
       altered_time_coords = Map.empty,
       start_time_edge = None, end_time_edge = None, eofs = None, svals = None,
       eof_stats = [], std_scaling = None,
       attrs = [ORIGDATA \<mapsto> NDArray [3] [Fin 4, Fin 8, Fin 6]],
       climo = None, leading_time = False, time_shp = [], spatial_shp = [3],
       flat_spatial_shp = [3], dim_idx = None, dim_coords = None,
       valid_data = None, is_masked = False,
       data = NDArray [3] [Fin 4, Fin 8, Fin 6] \<rparr>"

subsection \<open>Copies: the lineage of the EOF attributes and the admissible selections\<close>

text \<open>
  In the words of the specification: the current stage key is the EOF-projection stage or has
  it in its history chain.
\<close>

definition in_eof_lineage :: "dataobj \<Rightarrow> bool" where
  "in_eof_lineage s =
     (case curr_data_key s of
        None \<Rightarrow> False
      | Some k \<Rightarrow> k = EOFPROJ \<or> (case ops_performed s k of None \<Rightarrow> False
                                   | Some chain \<Rightarrow> EOFPROJ \<in> set chain))"

text \<open>
  The selections that \<^verbatim>\<open>copy\<close> can apply to \<open>n\<close> samples: no selection, indices within the
  samples, or a slice with both bounds given and a step other than 0.
\<close>

definition subsample_ok :: "selection option \<Rightarrow> nat \<Rightarrow> bool" where
  "subsample_ok sel n =
     (case sel of
        None \<Rightarrow> True
      | Some (Indices idxs) \<Rightarrow> list_all (\<lambda>i. - int n \<le> i \<and> i < int n) idxs
      | Some (Slice start stop step) \<Rightarrow> start \<noteq> None \<and> stop \<noteq> None \<and> step \<noteq> Some 0)"

text \<open>A basis of one mode over two locations, and an object whose current stage descends from an EOF projection.\<close>

definition example_basis :: "fval ndarray" where
  "example_basis = NDArray [2, 1] [Fin 1, Fin 0]"

definition example_eof_descendant :: dataobj where
  "example_eof_descendant =
     example_obj\<lparr>curr_data_key := Some ''resampled'',
       ops_performed := [ORIGDATA \<mapsto> [ORIGDATA],
                         ''resampled'' \<mapsto> [ORIGDATA, AWGHT, EOFPROJ, ''resampled'']],
       eofs := Some example_basis,
       eof_stats := [(''calc_on'', StatKey (Some AWGHT))]\<rparr>"

subsection \<open>Compression and inflation of a row, and a masked example\<close>

text \<open>
  The values of a row at the valid locations, and a row with NaN at the locations that are not valid.
\<close>

definition compress_row :: "bool list \<Rightarrow> 'a list \<Rightarrow> 'a list" where
  "compress_row v r = map snd (filter fst (zip v r))"

definition inflate_row :: "bool list \<Rightarrow> fval list \<Rightarrow> fval list" where
  "inflate_row v r = map2 (\<lambda>b x. if b then x else NaN) v r"

text \<open>
  A masked object: two samples over three locations, the second location not finite at the first sample; as construction leaves it, with the compressed data current.
\<close>

definition example_masked :: dataobj where
  "example_masked =
     \<lparr> full_shp = [2, 3], forced_flat = False, time_units = None, time_cal = None,
       cell_area = None, irregular_grid = False, coord_grids = None, fill_value = None,
       save_none = False,
       data_bins = [ORIGDATA \<mapsto> NDArray [2, 3] [Fin 1, NaN, Fin 3, Fin 4, Fin 5, Fin 6],
                    COMPRESSED \<mapsto> NDArray [2, 2] [Fin 1, Fin 3, Fin 4, Fin 6]],
       curr_data_key = Some COMPRESSED,
       ops_performed = [ORIGDATA \<mapsto> [ORIGDATA], COMPRESSED \<mapsto> [ORIGDATA, COMPRESSED]],
       altered_time_coords = [ORIGDATA \<mapsto> [10, 20]],
       start_time_edge = None, end_time_edge = None, eofs = None, svals = None,
       eof_stats = [], std_scaling = None,
       attrs = [ORIGDATA \<mapsto> NDArray [2, 3] [Fin 1, NaN, Fin 3, Fin 4, Fin 5, Fin 6],
                COMPRESSED \<mapsto> NDArray [2, 2] [Fin 1, Fin 3, Fin 4, Fin 6]],
       climo = None, leading_time = True, time_shp = [2], spatial_shp = [3],
       flat_spatial_shp = [3], dim_idx = Some [(TIME, 0)],
       dim_coords = Some [(TIME, 0, [10, 20])],
       valid_data = Some [True, False, True], is_masked = True,
       data = NDArray [2, 2] [Fin 1, Fin 3, Fin 4, Fin 6] \<rparr>"

subsection \<open>A longer series\<close>


subsection \<open>Objects and bases for the EOF projection\<close>

text \<open>
  A dense object of two samples over three locations with cell areas, as construction leaves it.
\<close>

definition example_series :: dataobj where
  "example_series =
     \<lparr> full_shp = [2, 3], forced_flat = False, time_units = None, time_cal = None,
       cell_area = Some (NDArray [3] [Fin 1, Fin 1, Fin 2]), irregular_grid = False,
       coord_grids = None, fill_value = None, save_none = False,
       data_bins = [ORIGDATA \<mapsto> NDArray [2, 3] [Fin 4, Fin 8, Fin 6, Fin 8, Fin 4, Fin 2]],
       curr_data_key = Some ORIGDATA,
       ops_performed = [ORIGDATA \<mapsto> [ORIGDATA]],
       altered_time_coords = [ORIGDATA \<mapsto> [10, 20]],
       start_time_edge = None, end_time_edge = None, eofs = None, svals = None,
       eof_stats = [], std_scaling = None,
       attrs = [ORIGDATA \<mapsto> NDArray [2, 3] [Fin 4, Fin 8, Fin 6, Fin 8, Fin 4, Fin 2]],
       climo = None, leading_time = True, time_shp = [2], spatial_shp = [3],
       flat_spatial_shp = [3], dim_idx = Some [(TIME, 0)],
       dim_coords = Some [(TIME, 0, [10, 20])],
       valid_data = None, is_masked = False,
       data = NDArray [2, 3] [Fin 4, Fin 8, Fin 6, Fin 8, Fin 4, Fin 2] \<rparr>"

text \<open>
  A stand-in for \<^verbatim>\<open>calc_eofs\<close> where a basis is given and the kernel is not called.
\<close>

definition no_eofs_kernel :: eofs_kernel where
  "no_eofs_kernel d m st = Inl (ValueError ''calc_eofs is not called when a basis is given'')"

text \<open>
  A basis of two modes and a basis of one mode over three locations.
\<close>

definition basis_two :: "fval ndarray" where
  "basis_two = NDArray [3, 2] [Fin 1, Fin 0, Fin 0, Fin 1, Fin 0, Fin 0]"

definition basis_one :: "fval ndarray" where
  "basis_one = NDArray [3, 1] [Fin 0, Fin 0, Fin 1]"

text \<open>
  The object after area weighting, and after a projection onto the basis of two modes that saves its bin.
\<close>

definition example_weighted :: dataobj where
  "example_weighted = snd (area_weight_data False True example_series)"

definition example_projected :: dataobj where
  "example_projected =
     snd (eof_proj_data no_eofs_kernel 10 (Some basis_two) True None None example_weighted)"

section \<open>Properties\<close>

lemmas array_defs = ndim_def asize_def chunks_def rows_def from_rows_def column_def map_arr_def
  count_true_def
lemmas seq_defs = ebind_def then_do_def lift_def to_sum_def
lemmas key_defs = TIME_def LAT_def LON_def LEVEL_def COMPRESSED_def ORIGDATA_def DETRENDED_def
  AWGHT_def RUNMEAN_def ANOMALY_def CLIMO_def STD_def EOFPROJ_def
lemmas obj_defs = set_curr_data_key_def add_to_operation_history_def new_empty_databin_def
  new_databin_def commit_stage_def alloc_stage_bin_def store_result_def assign_result_def

subsection \<open>The example objects are what construction yields\<close>

lemma init_example_obj:
  "init (NDArray [4, 2] (map Fin [1, 2, 3, 4, 5, 6, 7, 8])) (Some [(TIME, 0, [10, 20, 30, 40])])
        None None False None False False None None None = Inr example_obj"
  by (simp add: init_def init_dims_def init_valid_data_def data_masking_def
        check_invalid_data_def reset_data_def set_time_coord_def resolve_time_coord_def
        example_obj_def array_defs seq_defs key_defs obj_defs py_index_def py_pos_def Let_def)

lemma init_example_static:
  "init (NDArray [3] [Fin 4, Fin 8, Fin 6]) None None None False
        (Some (NDArray [3] [Fin 1, Fin 1, Fin 2])) False False None None None = Inr example_static"
  by (simp add: init_def init_dims_def init_valid_data_def data_masking_def
        check_invalid_data_def reset_data_def set_time_coord_def resolve_time_coord_def
        example_static_def array_defs seq_defs key_defs obj_defs py_index_def py_pos_def Let_def)


subsection \<open>Resolution of the time coordinate\<close>

lemma first_altered_rev:
  "first_altered alt (rev chain) = nearest_ancestor alt chain"
proof (induction chain rule: rev_induct)
  case Nil
  show ?case by (simp add: nearest_ancestor_def)
next
  case (snoc x xs)
  show ?case
  proof (cases "alt x")
    case None
    with snoc show ?thesis by (simp add: nearest_ancestor_def)
  next
    case (Some tc)
    then show ?thesis by (simp add: nearest_ancestor_def)
  qed
qed

lemma resolve_spec:
  "resolve_time_coord k s =
     (case spec_time_coord k s of
        Some tc \<Rightarrow> Inr tc
      | None \<Rightarrow> Inl (if altered_time_coords s k = None \<and> ops_performed s k = None then KeyError k
                     else IndexError ''No suitable time coordinates found for current key.''))"
  by (simp add: resolve_time_coord_def spec_time_coord_def first_altered_rev
           split: option.splits)

text \<open>
  Claim C6. For a stage key \<open>k\<close> and a target length \<open>L\<close>, \<^verbatim>\<open>_set_time_coord\<close> resolves
  the entry of \<open>k\<close> in the altered time coordinates when there is one, and otherwise the
  entry of the nearest ancestor of \<open>k\<close> in its recorded history chain that has one
  (\<open>spec_time_coord\<close>). It raises, leaving the object as it was, when nothing is resolved
  and when the resolved vector's length is not \<open>L\<close>. When a vector of length \<open>L\<close> is
  resolved and the object has a time coordinate, the call returns; and whenever it returns,
  the object's time coordinate is the resolved vector and its time shape is \<open>[L]\<close>.
\<close>

theorem set_time_coord_resolution:
  "(spec_time_coord k s = None \<longrightarrow> (\<exists>e. set_time_coord k L s = (Raised e, s)))
   \<and> (spec_time_coord k s = Some tc \<and> int (length tc) \<noteq> L \<longrightarrow>
        set_time_coord k L s = (Raised (ValueError ''Inconsistent sampling dimension and corresponding coordinate length detected.''), s))
   \<and> (spec_time_coord k s = Some tc \<and> int (length tc) = L \<and> time_coord_of s \<noteq> None \<longrightarrow>
        (\<exists>s'. set_time_coord k L s = (Returned (), s')))
   \<and> (set_time_coord k L s = (Returned (), s') \<longrightarrow>
        spec_time_coord k s = Some (the (time_coord_of s')) \<and> time_coord_of s' \<noteq> None
        \<and> int (length (the (time_coord_of s'))) = L \<and> time_shp s' = [L])"
  by (auto simp: set_time_coord_def resolve_spec time_coord_of_def update_conv'
           split: option.splits if_splits)

theorem set_time_coord_resolution_witness:
  "spec_time_coord DETRENDED example_obj2 = Some [10, 20, 30, 40]
   \<and> spec_time_coord ''unknown'' example_obj2 = None
   \<and> (\<exists>e. set_time_coord ''unknown'' 4 example_obj2 = (Raised e, example_obj2))
   \<and> set_time_coord DETRENDED 3 example_obj2 =
       (Raised (ValueError ''Inconsistent sampling dimension and corresponding coordinate length detected.''), example_obj2)
   \<and> (\<exists>s'. set_time_coord DETRENDED 4 example_obj2 = (Returned (), s')
          \<and> time_coord_of s' = Some [10, 20, 30, 40] \<and> time_shp s' = [4])"
proof -
  have a: "spec_time_coord DETRENDED example_obj2 = Some [10, 20, 30, 40]"
    by (simp add: spec_time_coord_def nearest_ancestor_def example_obj2_def example_obj_def
          ORIGDATA_def DETRENDED_def)
  have b: "spec_time_coord ''unknown'' example_obj2 = None"
    by (simp add: spec_time_coord_def nearest_ancestor_def example_obj2_def example_obj_def
          ORIGDATA_def DETRENDED_def)
  have c: "time_coord_of example_obj2 \<noteq> None"
    by (simp add: time_coord_of_def example_obj2_def example_obj_def)
  from set_time_coord_resolution [of "''unknown''" example_obj2 4] b
  have r1: "\<exists>e. set_time_coord ''unknown'' 4 example_obj2 = (Raised e, example_obj2)"
    by blast
  from set_time_coord_resolution [of DETRENDED example_obj2 3 "[10, 20, 30, 40]"] a
  have r2: "set_time_coord DETRENDED 3 example_obj2 =
       (Raised (ValueError ''Inconsistent sampling dimension and corresponding coordinate length detected.''), example_obj2)"
    by simp
  from set_time_coord_resolution [of DETRENDED example_obj2 4 "[10, 20, 30, 40]"] a c
  obtain s' where s': "set_time_coord DETRENDED 4 example_obj2 = (Returned (), s')"
    by auto
  from set_time_coord_resolution [of DETRENDED example_obj2 4 _ s'] s' a
  have "time_coord_of s' = Some [10, 20, 30, 40] \<and> time_shp s' = [4]"
    by auto
  with a b r1 r2 s' show ?thesis by blast
qed

subsection \<open>Inflating an unmasked object\<close>

text \<open>
  Claim C10. On an object that is not masked, \<^verbatim>\<open>inflate_full_grid\<close> does not raise and
  returns no array: its result is \<^verbatim>\<open>None\<close>, whatever data, axis and reshape flag it is
  given.
\<close>

theorem inflate_unmasked_returns_none:
  "\<not> is_masked s \<Longrightarrow> inflate_full_grid s data_arg expand_axis reshape_orig = Returned None"
  by (simp add: inflate_full_grid_def)

theorem inflate_unmasked_returns_none_witness:
  "\<not> is_masked example_obj
   \<and> inflate_full_grid example_obj (Some (NDArray [1] [Fin 1])) (- 1) True = Returned None
   \<and> inflate_full_grid example_obj None (- 1) False = Returned None"
proof -
  have h: "\<not> is_masked example_obj" by (simp add: example_obj_def)
  show ?thesis
    using h inflate_unmasked_returns_none [OF h, of "Some (NDArray [1] [Fin 1])" "- 1" True]
      inflate_unmasked_returns_none [OF h, of None "- 1" False]
    by simp
qed

subsection \<open>Construction with a mask given by the caller\<close>

text \<open>
  Claim C3. The claim says that construction from an array and a valid-data mask of the
  same spatial shape succeeds and applies the mask. In the code the first test on the
  mask is \<^verbatim>\<open>if dim_lim <= 3: raise ValueError('Valid data mask should not have more than 3
  dimensions')\<close>: the comparison is the reverse of what the message says, and every mask
  of at most three dimensions ends construction with an exception, whatever its shape.
\<close>

theorem init_mask_guard:
  "ndim vd \<le> 3 \<Longrightarrow>
     \<exists>e. init d dc cg (Some vd) ff ca ig sn tu tcal fv = Inl e"
  by (auto simp: init_def init_valid_data_def ebind_def Let_def split: sum.splits)

theorem init_mask_guard_witness:
  "ndim (NDArray [2, 2] [True, False, True, True]) \<le> 3
   \<and> init (NDArray [2, 2] [Fin 1, Fin 2, Fin 3, Fin 4]) None None
        (Some (NDArray [2, 2] [True, False, True, True])) False None False False None None None
      = Inl (ValueError ''Valid data mask should not have more than 3 dimensions'')"
proof -
  have h: "ndim (NDArray [2, 2] [True, False, True, True]) \<le> 3" by (simp add: ndim_def)
  from init_mask_guard [OF h]
  have "\<exists>e. init (NDArray [2, 2] [Fin 1, Fin 2, Fin 3, Fin 4]) None None
        (Some (NDArray [2, 2] [True, False, True, True])) False None False False None None None
      = Inl e" .
  then show ?thesis
    using h by (simp add: init_def init_dims_def init_valid_data_def ndim_def ebind_def Let_def)
qed

subsection \<open>Transforms on an object without a time axis\<close>

text \<open>
  Claim C4, as the claim states it, fails: area weighting does not test for a leading time
  axis. On the object without a time axis below it returns the weighted data and commits
  the stage \<^verbatim>\<open>area_weighted\<close>.
\<close>

theorem area_weight_without_time:
  "\<not> leading_time example_static
   \<and> area_weight_data False True example_static =
       (Returned (NDArray [3] [Fin 1, Fin 2, Fin 3]),
        example_static\<lparr>data := NDArray [3] [Fin 1, Fin 2, Fin 3],
          data_bins := [ORIGDATA \<mapsto> NDArray [3] [Fin 4, Fin 8, Fin 6],
                        AWGHT \<mapsto> NDArray [3] [Fin 1, Fin 2, Fin 3]],
          attrs := [ORIGDATA \<mapsto> NDArray [3] [Fin 4, Fin 8, Fin 6],
                    AWGHT \<mapsto> NDArray [3] [Fin 1, Fin 2, Fin 3]],
          ops_performed := [ORIGDATA \<mapsto> [ORIGDATA], AWGHT \<mapsto> [ORIGDATA, AWGHT]],
          curr_data_key := Some AWGHT\<rparr>)"
  by (simp add: area_weight_data_def example_static_def np_empty_def np_binop_def
        broadcast_shapes_def pad_shape_def broadcast_to_def np_assign_all_def fsum_def
        array_defs seq_defs key_defs obj_defs Let_def upt_rec)

text \<open>
  Claim C4, amended. On every object without a leading time axis, temporal resampling,
  the running mean, the anomaly, detrending and the EOF projection raise a ValueError and
  leave the object as it was, so that no stage is committed; this holds for all their
  arguments and for every kernel.
\<close>

theorem guarded_transforms_need_time:
  "\<not> leading_time s \<Longrightarrow>
     time_average_resample k n shift s =
       (Raised (ValueError ''Can only perform a resample operation when data has a leading sampling dimension.''), s)
     \<and> calc_running_mean w yl save s =
       (Raised (ValueError ''Can only perform a running mean when data has a leading sampling dimension.''), s)
     \<and> calc_anomaly akern yl save cl s =
       (Raised (ValueError ''Can only perform anomaly calculation with a specified leading sampling dimension''), s)
     \<and> detrend_data dkern save s =
       (Raised (ValueError ''Can only perform detrending with a specified leading sampling dimension''), s)
     \<and> eof_proj_data ekern m eof_in save calc_on proj s =
       (Raised (ValueError ''Can only perform eof calculation with a specified leading sampling dimension''), s)"
  by (simp add: time_average_resample_def calc_running_mean_def calc_anomaly_def
        detrend_data_def eof_proj_data_def)

theorem guarded_transforms_need_time_witness:
  "\<not> leading_time example_static
   \<and> time_average_resample ''resampled'' 3 0 example_static =
       (Raised (ValueError ''Can only perform a resample operation when data has a leading sampling dimension.''), example_static)
   \<and> calc_running_mean 12 12 True example_static =
       (Raised (ValueError ''Can only perform a running mean when data has a leading sampling dimension.''), example_static)
   \<and> calc_anomaly (\<lambda>d y c out. Inr (d, d)) 12 True None example_static =
       (Raised (ValueError ''Can only perform anomaly calculation with a specified leading sampling dimension''), example_static)
   \<and> detrend_data (\<lambda>d out. Inr d) True example_static =
       (Raised (ValueError ''Can only perform detrending with a specified leading sampling dimension''), example_static)
   \<and> eof_proj_data (\<lambda>d m st. Inr (d, d, st)) 10 None True None None example_static =
       (Raised (ValueError ''Can only perform eof calculation with a specified leading sampling dimension''), example_static)"
proof -
  have h: "\<not> leading_time example_static" by (simp add: example_static_def)
  show ?thesis
    using h guarded_transforms_need_time [OF h, of "''resampled''" 3 0 12 12 True
        "\<lambda>d y c out. Inr (d, d)" None "\<lambda>d out. Inr d" "\<lambda>d m st. Inr (d, d, st)" 10 None None None]
    by simp
qed

subsection \<open>State after a transform that raises\<close>

text \<open>
  Claim C5. The claim says that a transform that raises leaves the dimension coordinates
  as they were. \<^verbatim>\<open>calc_running_mean\<close> assigns the trimmed time coordinate to
  \<^verbatim>\<open>_dim_coords\<close> before it allocates the new bin. On a series of four samples with a
  window of six the trim is three at each end, the length of the bin is negative, and the
  allocation raises: the object is then left with an empty time coordinate in place of
  its four entries.
\<close>

theorem running_mean_short_series:
  "calc_running_mean 6 1 True example_obj =
     (Raised (ValueError ''negative dimensions are not allowed''),
      example_obj\<lparr>dim_coords := Some [(TIME, 0, [])]\<rparr>)
   \<and> time_coord_of example_obj = Some [10, 20, 30, 40]
   \<and> time_coord_of (snd (calc_running_mean 6 1 True example_obj)) = Some []"
  by (simp add: calc_running_mean_def edge_trim_def example_obj_def py_slice_def
        slice_positions_def slice_bound_def np_empty_def time_coord_of_def
        array_defs seq_defs key_defs obj_defs Let_def)

subsection \<open>Copying and subsampling\<close>

lemma length_rows: "shape a = n # sp \<Longrightarrow> length (rows a) = n"
  by (simp add: rows_def chunks_def)

lemma eof_relevant_lineage:
  "eof_relevant s = Inr b \<Longrightarrow> b = in_eof_lineage s"
  by (auto simp: eof_relevant_def in_eof_lineage_def split: option.splits if_splits)

lemma index_positions_ok:
  "list_all (\<lambda>i. - int n \<le> i \<and> i < int n) idxs \<Longrightarrow> \<exists>ps. index_positions idxs n = Inr ps"
  by (auto simp: index_positions_def py_pos_def list_all_iff Let_def)

lemma select_positions_ok:
  "subsample_ok (Some sel) n \<Longrightarrow> \<exists>ps. select_positions sel n = Inr ps"
  using index_positions_ok
  by (auto simp: subsample_ok_def select_positions_def Let_def split: selection.splits option.splits)

lemma sample_len_ok:
  "subsample_ok (Some sel) n \<Longrightarrow> \<exists>l. sample_len_of sel = Inr l"
  by (auto simp: subsample_ok_def sample_len_of_def split: selection.splits option.splits)

lemma copy_result:
  assumes "copy sel s = Inr c"
  shows "(case sel of
            None \<Rightarrow> data c = data s \<and> time_coord_of c = time_coord_of s
          | Some sl \<Rightarrow> select_axis0 sl (data s) = Inr (data c)
                \<and> (\<exists>tc tc'. time_coord_of s = Some tc \<and> select_list sl tc = Inr tc'
                      \<and> time_coord_of c = Some tc'))
         \<and> eofs c = (if in_eof_lineage s then eofs s else None)
         \<and> svals c = (if in_eof_lineage s then svals s else None)
         \<and> eof_stats c = (if in_eof_lineage s then eof_stats s else [])"
  using assms
  by (auto simp: copy_def ebind_def time_coord_of_def update_conv'
           dest!: eof_relevant_lineage
           split: option.splits if_splits sum.splits prod.splits)

lemma copy_returns:
  assumes "curr_data_key s = Some k" and "ops_performed s k = Some ops"
    and "time_coord_of s = Some tc"
    and "sel \<noteq> None \<longrightarrow> leading_time s \<and> shape (data s) = n # sp \<and> length tc = n"
    and "subsample_ok sel n"
  shows "\<exists>c. copy sel s = Inr c"
proof -
  from assms(3) obtain dc idx where dc: "dim_coords s = Some dc" "map_of dc TIME = Some (idx, tc)"
    by (auto simp: time_coord_of_def split: option.splits)
  from assms(1,2) have "\<exists>b. eof_relevant s = Inr b"
    by (auto simp: eof_relevant_def)
  then obtain b where b: "eof_relevant s = Inr b" ..
  show ?thesis
  proof (cases sel)
    case None
    with assms(1,2) dc b show ?thesis by (simp add: copy_def ebind_def)
  next
    case (Some sl)
    with assms(4) have lt: "leading_time s" and sh: "shape (data s) = n # sp" and len: "length tc = n"
      by auto
    from Some assms(5) obtain l where l: "sample_len_of sl = Inr l"
      using sample_len_ok by blast
    from Some assms(5) obtain ps where ps: "select_positions sl n = Inr ps"
      using select_positions_ok by blast
    have t: "select_list sl tc = Inr (map (\<lambda>i. tc ! i) ps)"
      using ps len by (simp add: select_list_def)
    have d: "select_axis0 sl (data s) = Inr (from_rows sp (map (\<lambda>i. rows (data s) ! i) ps))"
      using ps sh length_rows [OF sh] by (simp add: select_axis0_def select_list_def)
    show ?thesis
      using Some lt assms(1,2) dc b l t d by (simp add: copy_def ebind_def)
  qed
qed

text \<open>
  Where \<^verbatim>\<open>copy\<close> is given a selection and the object has no leading time axis it raises a
  ValueError. When \<^verbatim>\<open>copy\<close> returns, the data and the time coordinate of the copy are
  those of the source subsampled by the selection (unchanged without a selection), and
  the EOF basis, the singular values and the EOF statistics of the copy are those of the
  source if the current stage key is the EOF-projection stage or has it in its history
  chain, and are empty otherwise. The copy is returned when the current stage has a
  history, the object has a time coordinate and the selection is admissible for the
  samples (indices within the series, a slice with both bounds given).
\<close>

lemma copy_subsample:
  "(sel \<noteq> None \<and> \<not> leading_time s \<longrightarrow>
      copy sel s = Inl (ValueError ''Cannot copy with specified indices for subsamplewhen data does not contain leading sampling dim.''))
   \<and> (copy sel s = Inr c \<longrightarrow>
        (case sel of
            None \<Rightarrow> data c = data s \<and> time_coord_of c = time_coord_of s
          | Some sl \<Rightarrow> select_axis0 sl (data s) = Inr (data c)
                \<and> (\<exists>tc tc'. time_coord_of s = Some tc \<and> select_list sl tc = Inr tc'
                      \<and> time_coord_of c = Some tc'))
         \<and> eofs c = (if in_eof_lineage s then eofs s else None)
         \<and> svals c = (if in_eof_lineage s then svals s else None)
         \<and> eof_stats c = (if in_eof_lineage s then eof_stats s else []))
   \<and> (curr_data_key s = Some k \<and> ops_performed s k = Some ops \<and> time_coord_of s = Some tc
        \<and> (sel \<noteq> None \<longrightarrow> leading_time s \<and> shape (data s) = n # sp \<and> length tc = n)
        \<and> subsample_ok sel n \<longrightarrow> (\<exists>c'. copy sel s = Inr c'))"
proof -
  have a: "sel \<noteq> None \<and> \<not> leading_time s \<longrightarrow>
      copy sel s = Inl (ValueError ''Cannot copy with specified indices for subsamplewhen data does not contain leading sampling dim.'')"
    by (simp add: copy_def)
  have b: "copy sel s = Inr c \<longrightarrow>
        (case sel of
            None \<Rightarrow> data c = data s \<and> time_coord_of c = time_coord_of s
          | Some sl \<Rightarrow> select_axis0 sl (data s) = Inr (data c)
                \<and> (\<exists>tc tc'. time_coord_of s = Some tc \<and> select_list sl tc = Inr tc'
                      \<and> time_coord_of c = Some tc'))
         \<and> eofs c = (if in_eof_lineage s then eofs s else None)
         \<and> svals c = (if in_eof_lineage s then svals s else None)
         \<and> eof_stats c = (if in_eof_lineage s then eof_stats s else [])"
    using copy_result [of sel s c] by blast
  have c: "curr_data_key s = Some k \<and> ops_performed s k = Some ops \<and> time_coord_of s = Some tc
        \<and> (sel \<noteq> None \<longrightarrow> leading_time s \<and> shape (data s) = n # sp \<and> length tc = n)
        \<and> subsample_ok sel n \<longrightarrow> (\<exists>c'. copy sel s = Inr c')"
    using copy_returns [of s k ops tc sel n sp] by blast
  from a b c show ?thesis by blast
qed

lemmas copy_eval = copy_def eof_relevant_def sample_len_of_def select_list_def select_axis0_def
  select_positions_def index_positions_def py_pos_def slice_positions_def slice_bound_def
  time_coord_of_def in_eof_lineage_def subsample_ok_def

lemma copy_subsample_witness:
  "copy (Some (Indices [0, 2])) example_static =
      Inl (ValueError ''Cannot copy with specified indices for subsamplewhen data does not contain leading sampling dim.'')
   \<and> (\<exists>c. copy (Some (Indices [0, 2])) (example_obj\<lparr>eofs := Some example_basis\<rparr>) = Inr c
        \<and> data c = NDArray [2, 2] [Fin 1, Fin 2, Fin 5, Fin 6]
        \<and> time_coord_of c = Some [10, 30]
        \<and> eofs c = None \<and> svals c = None \<and> eof_stats c = [])
   \<and> (\<exists>c. copy (Some (Slice (Some 1) (Some 3) None)) example_eof_descendant = Inr c
        \<and> data c = NDArray [2, 2] [Fin 3, Fin 4, Fin 5, Fin 6]
        \<and> time_coord_of c = Some [20, 30]
        \<and> eofs c = Some example_basis
        \<and> eof_stats c = [(''calc_on'', StatKey (Some AWGHT))])"
proof -
  let ?s1 = "example_obj\<lparr>eofs := Some example_basis\<rparr>"
  have a: "copy (Some (Indices [0, 2])) example_static =
      Inl (ValueError ''Cannot copy with specified indices for subsamplewhen data does not contain leading sampling dim.'')"
    using copy_subsample [of "Some (Indices [0, 2])" example_static]
    by (simp add: example_static_def)
  have "\<exists>c'. copy (Some (Indices [0, 2])) ?s1 = Inr c'"
    using copy_subsample [of "Some (Indices [0, 2])" ?s1 _ ORIGDATA "[ORIGDATA]" "[10, 20, 30, 40]" 4 "[2]"]
    by (simp add: example_obj_def time_coord_of_def subsample_ok_def)
  then obtain c1 where c1: "copy (Some (Indices [0, 2])) ?s1 = Inr c1" ..
  have lin1: "\<not> in_eof_lineage ?s1"
    by (simp add: in_eof_lineage_def example_obj_def key_defs)
  have sel1: "select_axis0 (Indices [0, 2]) (data ?s1) = Inr (NDArray [2, 2] [Fin 1, Fin 2, Fin 5, Fin 6])"
    by (simp add: copy_eval example_obj_def array_defs upt_rec)
  have tc1: "select_list (Indices [0, 2]) [10, 20, 30, 40 :: real] = Inr [10, 30]"
    by (simp add: copy_eval)
  have t1: "time_coord_of ?s1 = Some [10, 20, 30, 40]"
    by (simp add: time_coord_of_def example_obj_def)
  from copy_subsample [of "Some (Indices [0, 2])" ?s1 c1] c1 lin1 sel1 tc1 t1
  have b: "data c1 = NDArray [2, 2] [Fin 1, Fin 2, Fin 5, Fin 6] \<and> time_coord_of c1 = Some [10, 30]
      \<and> eofs c1 = None \<and> svals c1 = None \<and> eof_stats c1 = []"
    by auto
  let ?s2 = example_eof_descendant
  let ?sl = "Slice (Some 1) (Some 3) None"
  have "\<exists>c'. copy (Some ?sl) ?s2 = Inr c'"
    using copy_subsample [of "Some ?sl" ?s2 _ "''resampled''" "[ORIGDATA, AWGHT, EOFPROJ, ''resampled'']"
        "[10, 20, 30, 40]" 4 "[2]"]
    by (simp add: example_eof_descendant_def example_obj_def time_coord_of_def subsample_ok_def)
  then obtain c2 where c2: "copy (Some ?sl) ?s2 = Inr c2" ..
  have lin2: "in_eof_lineage ?s2"
    by (simp add: in_eof_lineage_def example_eof_descendant_def example_obj_def key_defs)
  have sel2: "select_axis0 ?sl (data ?s2) = Inr (NDArray [2, 2] [Fin 3, Fin 4, Fin 5, Fin 6])"
    by (simp add: copy_eval py_slice_def example_eof_descendant_def example_obj_def array_defs
          upt_rec Let_def)
  have tc2: "select_list ?sl [10, 20, 30, 40 :: real] = Inr [20, 30]"
    by (simp add: copy_eval upt_rec Let_def)
  have t2: "time_coord_of ?s2 = Some [10, 20, 30, 40]"
    by (simp add: time_coord_of_def example_eof_descendant_def example_obj_def)
  have e2: "eofs ?s2 = Some example_basis" "eof_stats ?s2 = [(''calc_on'', StatKey (Some AWGHT))]"
    by (simp_all add: example_eof_descendant_def)
  from copy_subsample [of "Some ?sl" ?s2 c2] c2 lin2 sel2 tc2 t2 e2
  have c: "data c2 = NDArray [2, 2] [Fin 3, Fin 4, Fin 5, Fin 6] \<and> time_coord_of c2 = Some [20, 30]
      \<and> eofs c2 = Some example_basis \<and> eof_stats c2 = [(''calc_on'', StatKey (Some AWGHT))]"
    by auto
  from a b c c1 c2 show ?thesis by blast
qed

lemma copy_needs_time_coord:
  "time_coord_of s = None \<Longrightarrow> \<exists>e. copy sel s = Inl e"
  by (auto simp: copy_def time_coord_of_def ebind_def split: option.splits sum.splits)

lemma copy_open_slice:
  "a = None \<or> b = None \<Longrightarrow> \<exists>e. copy (Some (Slice a b st)) s = Inl e"
  by (auto simp: copy_def sample_len_of_def ebind_def split: option.splits sum.splits)

text \<open>
  Claim C9. The claim says that a copy without a selection, and a copy with a selection of
  an object that has a leading time axis, is made and is as described. It is as described
  when it is made (lemma \<open>copy_subsample\<close>), but the two cases below make none.
  \<^verbatim>\<open>copy\<close> reads the time coordinate of every object, \<^verbatim>\<open>_dim_coords[self.TIME]\<close>, also
  without a selection: an object without a time coordinate cannot be copied at all (lemma
  \<open>copy_needs_time_coord\<close>). And the number of samples of a slice is computed as
  \<^verbatim>\<open>data_indices.stop - data_indices.start\<close>, a TypeError when a bound of the slice is
  open (lemma \<open>copy_open_slice\<close>). The first input is the object without a time axis, copied
  without a selection; the second the slice \<open>[1:]\<close> of the object of four samples.
\<close>

theorem copy_without_selection_fails:
  "\<not> leading_time example_static
   \<and> copy None example_static = Inl (KeyError ''_dim_coords'')
   \<and> leading_time example_obj
   \<and> copy (Some (Slice (Some 1) None None)) example_obj
       = Inl (TypeError ''unsupported operand type(s) for -'')"
  by (simp add: copy_def eof_relevant_def sample_len_of_def example_static_def example_obj_def
        seq_defs key_defs)

subsection \<open>Compression followed by inflation\<close>

lemma chunks_0 [simp]: "chunks 0 len xs = []"
  by (simp add: chunks_def)

lemma chunks_Suc: "chunks (Suc n) len xs = take len xs # chunks n len (drop len xs)"
proof -
  have "[0..<Suc n] = 0 # map Suc [0..<n]"
    by (simp add: upt_conv_Cons map_Suc_upt del: upt_Suc)
  then show ?thesis
    by (simp add: chunks_def add.commute del: upt_Suc)
qed

lemma length_chunks [simp]: "length (chunks n len xs) = n"
  by (simp add: chunks_def)

lemma chunks_concat:
  "\<forall>r\<in>set rs. length r = len \<Longrightarrow> chunks (length rs) len (concat rs) = rs"
  by (induction rs) (simp_all add: chunks_Suc)

lemma concat_chunks:
  "length xs = n * len \<Longrightarrow> concat (chunks n len xs) = xs"
proof (induction n arbitrary: xs)
  case 0
  then show ?case by simp
next
  case (Suc n)
  then have "length (drop len xs) = n * len" by simp
  with Suc.IH have "concat (chunks n len (drop len xs)) = drop len xs" by blast
  then show ?case by (simp add: chunks_Suc)
qed

lemma chunk_lengths:
  "length xs = n * len \<Longrightarrow> \<forall>r\<in>set (chunks n len xs). length r = len"
proof (induction n arbitrary: xs)
  case 0
  then show ?case by simp
next
  case (Suc n)
  then have "length (drop len xs) = n * len" by simp
  with Suc.IH have "\<forall>r\<in>set (chunks n len (drop len xs)). length r = len" by blast
  with Suc.prems show ?case by (simp add: chunks_Suc)
qed


lemma bcast_same: "length xs = prod_list ns \<Longrightarrow> bcast ns ns xs = xs"
proof (induction ns arbitrary: xs)
  case Nil
  then show ?case by simp
next
  case (Cons n ns)
  have len: "\<forall>r\<in>set (chunks n (prod_list ns) xs). length r = prod_list ns"
    using Cons.prems by (intro chunk_lengths) simp
  then have "map (bcast ns ns) (chunks n (prod_list ns) xs) = chunks n (prod_list ns) xs"
    using Cons.IH by (simp add: map_idI)
  then show ?case using Cons.prems by (simp add: concat_chunks)
qed

lemma chunks_singletons: "length r = L \<Longrightarrow> chunks L (Suc 0) r = map (\<lambda>x. [x]) r"
proof (induction r arbitrary: L)
  case Nil
  then show ?case by simp
next
  case (Cons x r)
  then obtain L' where "L = Suc L'" "length r = L'" by auto
  with Cons.IH show ?case by (simp add: chunks_Suc)
qed

lemma compress_singletons:
  "concat (map snd (filter fst (zip v (map (\<lambda>x. [x]) r)))) = compress_row v r"
  by (induction v r rule: list_induct2') (simp_all add: compress_row_def)

lemma mask_assign_row:
  "length r = length v \<Longrightarrow>
     mask_assign (v @ ms) (replicate (length v) NaN @ fs) (compress_row v r @ vs)
       = inflate_row v r @ mask_assign ms fs vs"
proof (induction v arbitrary: r)
  case Nil
  then show ?case by (simp add: compress_row_def inflate_row_def)
next
  case (Cons b v)
  then obtain x r' where r: "r = x # r'" "length r' = length v" by (cases r) auto
  with Cons.IH [of r'] show ?case
    by (cases b) (simp_all add: compress_row_def inflate_row_def)
qed

lemma mask_assign_nil [simp]: "mask_assign [] fs vs = fs"
  by (cases fs) simp_all

lemma mask_assign_rows:
  "\<forall>r\<in>set rs. length r = length v \<Longrightarrow>
     mask_assign (concat (replicate (length rs) v)) (replicate (length rs * length v) NaN)
        (concat (map (compress_row v) rs))
       = concat (map (inflate_row v) rs)"
proof (induction rs)
  case Nil
  then show ?case by simp
next
  case (Cons r rs)
  have "replicate (length (r # rs) * length v) NaN
          = replicate (length v) NaN @ replicate (length rs * length v) (NaN :: fval)"
    by (simp add: replicate_add [symmetric])
  with Cons show ?case by (simp add: mask_assign_row)
qed

lemma length_compress_row:
  "length r = length v \<Longrightarrow> length (compress_row v r) = count_true v"
  by (induction v r rule: list_induct2') (simp_all add: compress_row_def count_true_def)

lemma count_true_replicate:
  "count_true (concat (replicate n v)) = n * count_true v"
  by (induction n) (simp_all add: count_true_def)

lemma length_concat_compress:
  "\<forall>r\<in>set rs. length r = length v \<Longrightarrow>
     length (concat (map (compress_row v) rs)) = length rs * count_true v"
  by (induction rs) (simp_all add: length_compress_row)

lemma map2_ones: "length xs = n \<Longrightarrow> map2 (\<lambda>one b. one \<and> b) (replicate n True) xs = xs"
  by (induction xs arbitrary: n) auto

lemma chunks_one: "length xs = len \<Longrightarrow> chunks (Suc 0) len xs = [xs]"
  by (simp add: chunks_Suc)

lemma bcast_rows: "bcast [T, length v] [Suc 0, length v] v = concat (replicate T v)"
proof -
  have "bcast [length v] [length v] v = v" by (rule bcast_same) simp
  then show ?thesis by (auto simp: chunks_one)
qed

lemma expand_mask_time:
  "\<exists>sh. expand_mask_dims (length v) 0 [int T, int (length v)] (NDArray [length v] v) = Inr (NDArray sh v)
        \<and> (sh = [length v] \<or> sh = [Suc 0, length v])"
  by (auto simp: np_expand_dims_def ndim_def)

lemma inflate_compressed_time:
  assumes m: "is_masked s" and v: "valid_data s = Some v" and t: "time_shp s = [int T]"
    and d: "data s = NDArray [T, count_true v] (concat (map (compress_row v) rs))"
    and rs: "length rs = T" "\<forall>r\<in>set rs. length r = length v"
  shows "inflate_full_grid s None (- 1) False =
           Returned (Some (NDArray [T, length v] (concat (map (inflate_row v) rs))))"
proof -
  let ?L = "length v"
  have e: "np_empty [int T, int ?L] NaN = Inr (NDArray [T, ?L] (replicate (T * ?L) NaN))"
    by (simp add: np_empty_def)
  obtain sh where sh: "expand_mask_dims ?L 0 [int T, int ?L] (NDArray [?L] v) = Inr (NDArray sh v)"
      "sh = [?L] \<or> sh = [Suc 0, ?L]"
    using expand_mask_time by blast
  have pad: "pad_shape (Suc (Suc 0)) sh = [Suc 0, ?L]"
    using sh(2) by (auto simp: pad_shape_def)
  have bs: "broadcast_shapes [T, ?L] sh = Some [T, ?L]"
    using sh(2) by (auto simp: broadcast_shapes_def pad_shape_def numeral_2_eq_2)
  have ones: "broadcast_to [T, ?L] (NDArray [T, ?L] (replicate (T * ?L) True)) = replicate (T * ?L) True"
    by (simp add: broadcast_to_def pad_shape_def bcast_same del: bcast.simps)
  have vm: "broadcast_to [T, ?L] (NDArray sh v) = concat (replicate T v)"
    using pad bcast_rows [of T v] by (simp add: broadcast_to_def del: bcast.simps)
  have b: "np_binop (\<lambda>one b. one \<and> b) (NDArray [T, ?L] (replicate (T * ?L) True)) (NDArray sh v)
             = Inr (NDArray [T, ?L] (concat (replicate T v)))"
  proof -
    have "length (concat (replicate T v)) = T * ?L"
      by (induction T) simp_all
    then have "map2 (\<lambda>one b. one \<and> b) (replicate (T * ?L) True) (concat (replicate T v))
                 = concat (replicate T v)"
      by (rule map2_ones)
    with bs ones vm show ?thesis by (simp add: np_binop_def)
  qed
  have a: "np_mask_assign (NDArray [T, ?L] (replicate (T * ?L) NaN))
             (NDArray [T, ?L] (concat (replicate T v))) (concat (map (compress_row v) rs))
           = Inr (NDArray [T, ?L] (concat (map (inflate_row v) rs)))"
    using rs mask_assign_rows [of rs v]
    by (simp add: np_mask_assign_def count_true_replicate length_concat_compress)
  show ?thesis
    using m v t d e sh(1) b a by (simp add: inflate_full_grid_def ebind_def)
qed

lemma inflate_compressed_static:
  assumes m: "is_masked s" and v: "valid_data s = Some v" and t: "time_shp s = []"
    and d: "data s = NDArray [count_true v] (compress_row v r)"
    and r: "length r = length v"
  shows "inflate_full_grid s None (- 1) False =
           Returned (Some (NDArray [length v] (inflate_row v r)))"
proof -
  let ?L = "length v"
  have e: "np_empty [int ?L] NaN = Inr (NDArray [?L] (replicate ?L NaN))"
    by (simp add: np_empty_def)
  have x: "expand_mask_dims ?L 0 [int ?L] (NDArray [?L] v) = Inr (NDArray [?L] v)"
    by simp
  have same: "bcast [?L] [?L] v = v" "bcast [?L] [?L] (replicate ?L True) = replicate ?L True"
    by (rule bcast_same, simp)+
  have b: "np_binop (\<lambda>one b. one \<and> b) (NDArray [?L] (replicate ?L True)) (NDArray [?L] v)
             = Inr (NDArray [?L] v)"
    using same map2_ones [of v ?L]
    by (simp add: np_binop_def broadcast_shapes_def broadcast_to_def pad_shape_def del: bcast.simps)
  have "mask_assign (v @ []) (replicate ?L NaN @ []) (compress_row v r @ []) = inflate_row v r @ mask_assign [] [] []"
    using r by (rule mask_assign_row)
  then have a: "np_mask_assign (NDArray [?L] (replicate ?L NaN)) (NDArray [?L] v) (compress_row v r)
           = Inr (NDArray [?L] (inflate_row v r))"
    using r by (simp add: np_mask_assign_def length_compress_row)
  show ?thesis
    using m v t d e x b a by (simp add: inflate_full_grid_def ebind_def)
qed

lemma compress_axis1_rows:
  assumes "shape a = [T, length v]" and "length (flat a) = T * length v"
  shows "compress_axis1 v a =
           Inr (NDArray [T, count_true v] (concat (map (compress_row v) (rows a))))"
proof -
  have rws: "rows a = chunks T (length v) (flat a)"
    using assms(1) by (simp add: rows_def)
  have len: "\<forall>r\<in>set (rows a). length r = length v"
    unfolding rws using assms(2) by (rule chunk_lengths)
  have "map (\<lambda>r. concat (map snd (filter fst (zip v (chunks (length v) (Suc 0) r))))) (rows a)
          = map (compress_row v) (rows a)"
    using len by (intro map_cong) (simp_all add: chunks_singletons compress_singletons)
  then have "concat (map (\<lambda>r. concat (map snd (filter fst (zip v (chunks (length v) (Suc 0) r))))) (rows a))
          = concat (map (compress_row v) (rows a))"
    by (rule arg_cong)
  moreover have "compress_axis1 v a = Inr (NDArray [T, count_true v]
      (concat (map (\<lambda>r. concat (map snd (filter fst (zip v (chunks (length v) (Suc 0) r))))) (rows a))))"
    using assms(1) by (simp add: compress_axis1_def)
  ultimately show ?thesis by (simp only:)
qed

lemma compress_cell_area:
  "\<forall>ca. cell_area s = Some ca \<longrightarrow> length v \<le> length (flat ca) \<Longrightarrow>
     \<exists>s1. (case cell_area s of
             None \<Rightarrow> (Returned res, s)
           | Some ca \<Rightarrow>
               (case compress_list v (flat ca) of
                  Inl e \<Rightarrow> (Raised e, s)
                | Inr xs \<Rightarrow> (Returned res, s\<lparr>cell_area := Some (NDArray [length xs] xs)\<rparr>)))
            = (Returned res, s1)
          \<and> is_masked s1 = is_masked s \<and> valid_data s1 = valid_data s \<and> time_shp s1 = time_shp s"
  by (auto simp: compress_list_def split: option.splits)

lemma nth_concat_replicate:
  "i < n * length v \<Longrightarrow> concat (replicate n v) ! i = v ! (i mod length v)"
proof (induction n arbitrary: i)
  case 0
  then show ?case by simp
next
  case (Suc n)
  show ?case
  proof (cases "i < length v")
    case True
    then show ?thesis by (simp add: nth_append)
  next
    case False
    with Suc.prems have "i - length v < n * length v" by simp
    with Suc.IH have "concat (replicate n v) ! (i - length v) = v ! ((i - length v) mod length v)"
      by blast
    with False show ?thesis by (simp add: nth_append le_mod_geq)
  qed
qed

lemma inflate_rows_zip:
  "\<forall>r\<in>set rs. length r = length v \<Longrightarrow>
     concat (map (inflate_row v) rs)
       = map2 (\<lambda>b x. if b then x else NaN) (concat (replicate (length rs) v)) (concat rs)"
  by (induction rs) (simp_all add: inflate_row_def)

lemma init_example_masked:
  "init (NDArray [2, 3] [Fin 1, NaN, Fin 3, Fin 4, Fin 5, Fin 6]) (Some [(TIME, 0, [10, 20])])
        None None False None False False None None None = Inr example_masked"
  by (simp add: init_def init_dims_def init_valid_data_def init_compress_def data_masking_def
        check_invalid_data_def compress_to_valid_data_def compress_axis1_def np_reshape_def
        flatten_curr_data_def np_empty_def
        example_masked_def array_defs seq_defs key_defs obj_defs py_index_def py_pos_def
        Let_def upt_rec numeral_2_eq_2 [symmetric])

lemma masked_values:
  assumes "length xs = length ms" and "i < length xs"
  shows "map2 (\<lambda>b x. if b then x else NaN) ms xs ! i = (if ms ! i then xs ! i else NaN)"
  using assms by simp

text \<open>
  Claim C7. On a masked object with valid-data mask \<open>v\<close>, compressing a full grid \<open>a\<close>
  (samples by locations with a leading time axis, locations only without) with
  \<^verbatim>\<open>_compress_to_valid_data\<close> and inflating the compressed data with \<^verbatim>\<open>inflate_full_grid\<close>
  returns an array of the shape of \<open>a\<close> that holds the value of \<open>a\<close> at every position of a
  valid location and NaN at every position of a location that is not valid. Inflating
  data given by the caller raises a ValueError when the length of its compressed axis is
  not the number of valid locations.
\<close>

theorem compress_inflate_round_trip:
  "(is_masked s \<and> valid_data s = Some v
      \<and> time_shp s = (if leading_time s then [int T] else [])
      \<and> shape a = (if leading_time s then [T, length v] else [length v])
      \<and> length (flat a) = prod_list (shape a)
      \<and> (\<forall>ca. cell_area s = Some ca \<longrightarrow> length v \<le> length (flat ca))
    \<longrightarrow> (\<exists>c s1 full.
           compress_to_valid_data a v None s = (Returned c, s1)
         \<and> inflate_full_grid (s1\<lparr>data := c\<rparr>) None (- 1) False = Returned (Some full)
         \<and> shape full = shape a \<and> length (flat full) = length (flat a)
         \<and> (\<forall>i<length (flat a).
               flat full ! i = (if v ! (i mod length v) then flat a ! i else NaN))))
   \<and> (is_masked s \<and> valid_data s = Some v \<and> py_index (shape d) axis = Some n
        \<and> n \<noteq> count_true v
    \<longrightarrow> inflate_full_grid s (Some d) axis reshape_orig =
          Raised (ValueError ''Input data does not have same length as number of valid data elements.''))"
proof -
  let ?L = "length v"
  let ?f = "\<lambda>b x. if b then x else NaN"
  have part2: "is_masked s \<and> valid_data s = Some v \<and> py_index (shape d) axis = Some n
        \<and> n \<noteq> count_true v
    \<longrightarrow> inflate_full_grid s (Some d) axis reshape_orig =
          Raised (ValueError ''Input data does not have same length as number of valid data elements.'')"
    by (auto simp: inflate_full_grid_def py_index_def ndim_def ebind_def split: option.splits)
  have part1: "\<exists>c s1 full.
           compress_to_valid_data a v None s = (Returned c, s1)
         \<and> inflate_full_grid (s1\<lparr>data := c\<rparr>) None (- 1) False = Returned (Some full)
         \<and> shape full = shape a \<and> length (flat full) = length (flat a)
         \<and> (\<forall>i<length (flat a).
               flat full ! i = (if v ! (i mod length v) then flat a ! i else NaN))"
    if m: "is_masked s" and v: "valid_data s = Some v"
      and t: "time_shp s = (if leading_time s then [int T] else [])"
      and sh: "shape a = (if leading_time s then [T, length v] else [length v])"
      and len: "length (flat a) = prod_list (shape a)"
      and ca: "\<forall>ca. cell_area s = Some ca \<longrightarrow> length v \<le> length (flat ca)"
  proof (cases "leading_time s")
    case True
    with sh len have sha: "shape a = [T, ?L]" and la: "length (flat a) = T * ?L" by simp_all
    let ?c = "NDArray [T, count_true v] (concat (map (compress_row v) (rows a)))"
    have rws: "rows a = chunks T ?L (flat a)" using sha by (simp add: rows_def)
    have rlen: "\<forall>r\<in>set (rows a). length r = ?L" unfolding rws using la by (rule chunk_lengths)
    have rn: "length (rows a) = T" using sha by (rule length_rows)
    from compress_cell_area [OF ca, of ?c] obtain s1 where s1:
      "(case cell_area s of None \<Rightarrow> (Returned ?c, s)
        | Some ca \<Rightarrow> (case compress_list v (flat ca) of Inl e \<Rightarrow> (Raised e, s)
            | Inr xs \<Rightarrow> (Returned ?c, s\<lparr>cell_area := Some (NDArray [length xs] xs)\<rparr>))) = (Returned ?c, s1)"
      "is_masked s1 = is_masked s" "valid_data s1 = valid_data s" "time_shp s1 = time_shp s"
      by blast
    have cmp: "compress_to_valid_data a v None s = (Returned ?c, s1)"
      using True s1(1) compress_axis1_rows [OF sha la] by (simp add: compress_to_valid_data_def)
    let ?full = "NDArray [T, ?L] (concat (map (inflate_row v) (rows a)))"
    have inf: "inflate_full_grid (s1\<lparr>data := ?c\<rparr>) None (- 1) False = Returned (Some ?full)"
      using m v t True s1(2-4) rn rlen by (intro inflate_compressed_time) simp_all
    have fl: "flat ?full = map2 ?f (concat (replicate T v)) (flat a)"
      using inflate_rows_zip [OF rlen] rn la by (simp add: rws concat_chunks)
    have lr: "length (concat (replicate T v)) = T * ?L" by (induction T) simp_all
    have lf: "length (flat ?full) = length (flat a)" using fl lr la by simp
    have el: "\<forall>i<length (flat a). flat ?full ! i = (if v ! (i mod ?L) then flat a ! i else NaN)"
      using fl lr la by (simp add: nth_concat_replicate)
    from cmp inf sha lf el show ?thesis by (intro exI [of _ ?c] exI [of _ s1] exI [of _ ?full]) simp
  next
    case False
    with sh len have sha: "shape a = [?L]" and la: "length (flat a) = ?L" by simp_all
    let ?c = "NDArray [length (compress_row v (flat a))] (compress_row v (flat a))"
    from compress_cell_area [OF ca, of ?c] obtain s1 where s1:
      "(case cell_area s of None \<Rightarrow> (Returned ?c, s)
        | Some ca \<Rightarrow> (case compress_list v (flat ca) of Inl e \<Rightarrow> (Raised e, s)
            | Inr xs \<Rightarrow> (Returned ?c, s\<lparr>cell_area := Some (NDArray [length xs] xs)\<rparr>))) = (Returned ?c, s1)"
      "is_masked s1 = is_masked s" "valid_data s1 = valid_data s" "time_shp s1 = time_shp s"
      by blast
    have cl: "compress_list v (flat a) = Inr (compress_row v (flat a))"
      using la by (simp add: compress_list_def compress_row_def)
    have cmp: "compress_to_valid_data a v None s = (Returned ?c, s1)"
      using False s1(1) cl by (simp add: compress_to_valid_data_def)
    let ?full = "NDArray [?L] (inflate_row v (flat a))"
    have inf: "inflate_full_grid (s1\<lparr>data := ?c\<rparr>) None (- 1) False = Returned (Some ?full)"
      using m v t False s1(2-4) la by (intro inflate_compressed_static) (simp_all add: length_compress_row)
    have el: "\<forall>i<length (flat a). flat ?full ! i = (if v ! (i mod ?L) then flat a ! i else NaN)"
      using la by (simp add: inflate_row_def)
    have lf: "length (flat ?full) = length (flat a)" using la by (simp add: inflate_row_def)
    from cmp inf sha lf el show ?thesis by (intro exI [of _ ?c] exI [of _ s1] exI [of _ ?full]) simp
  qed
  from part1 part2 show ?thesis by blast
qed

lemmas inflate_eval = inflate_full_grid_def compress_to_valid_data_def compress_axis1_def
  np_empty_def np_expand_dims_def np_binop_def np_mask_assign_def broadcast_shapes_def
  broadcast_to_def pad_shape_def py_pos_def py_index_def

theorem compress_inflate_round_trip_witness:
  "compress_to_valid_data (NDArray [2, 3] [Fin 1, NaN, Fin 3, Fin 4, Fin 5, Fin 6])
       [True, False, True] None example_masked = (Returned (data example_masked), example_masked)
   \<and> inflate_full_grid example_masked None (- 1) False =
       Returned (Some (NDArray [2, 3] [Fin 1, NaN, Fin 3, Fin 4, NaN, Fin 6]))
   \<and> inflate_full_grid example_masked (Some (NDArray [2, 3] (map Fin [1, 2, 3, 4, 5, 6]))) (- 1) False =
       Raised (ValueError ''Input data does not have same length as number of valid data elements.'')"
proof -
  let ?a = "NDArray [2, 3] [Fin 1, NaN, Fin 3, Fin 4, Fin 5, Fin 6]"
  let ?v = "[True, False, True]"
  have e1: "compress_to_valid_data ?a ?v None example_masked
              = (Returned (data example_masked), example_masked)"
    by (simp add: inflate_eval example_masked_def array_defs upt_rec numeral_2_eq_2 [symmetric])
  have "\<exists>c s1 full. compress_to_valid_data ?a ?v None example_masked = (Returned c, s1)
         \<and> inflate_full_grid (s1\<lparr>data := c\<rparr>) None (- 1) False = Returned (Some full)
         \<and> shape full = shape ?a \<and> length (flat full) = length (flat ?a)
         \<and> (\<forall>i<length (flat ?a). flat full ! i = (if ?v ! (i mod length ?v) then flat ?a ! i else NaN))"
    using compress_inflate_round_trip [of example_masked ?v 2 ?a]
    by (simp add: example_masked_def)
  then obtain full where full:
      "inflate_full_grid example_masked None (- 1) False = Returned (Some full)"
      "shape full = [2, 3]" "length (flat full) = 6"
      "\<forall>i<6. flat full ! i = (if ?v ! (i mod 3) then flat ?a ! i else NaN)"
    using e1 by auto
  have "flat full = [Fin 1, NaN, Fin 3, Fin 4, NaN, Fin 6]"
  proof (rule nth_equalityI)
    show "length (flat full) = length [Fin 1, NaN, Fin 3, Fin 4, NaN, Fin 6]"
      using full(3) by simp
  next
    fix i assume "i < length (flat full)"
    then have "i < 6" using full(3) by simp
    then consider "i = 0" | "i = 1" | "i = 2" | "i = 3" | "i = 4" | "i = 5" by linarith
    then show "flat full ! i = [Fin 1, NaN, Fin 3, Fin 4, NaN, Fin 6] ! i"
      using full(4) by cases (simp_all add: nth_Cons')
  qed
  with full(2) have "full = NDArray [2, 3] [Fin 1, NaN, Fin 3, Fin 4, NaN, Fin 6]"
    by (cases full) simp
  with full(1) have e2: "inflate_full_grid example_masked None (- 1) False =
       Returned (Some (NDArray [2, 3] [Fin 1, NaN, Fin 3, Fin 4, NaN, Fin 6]))"
    by simp
  have e3: "inflate_full_grid example_masked (Some (NDArray [2, 3] (map Fin [1, 2, 3, 4, 5, 6]))) (- 1) False =
       Raised (ValueError ''Input data does not have same length as number of valid data elements.'')"
    using compress_inflate_round_trip [of example_masked ?v _ _ "NDArray [2, 3] (map Fin [1, 2, 3, 4, 5, 6])" "- 1" 3 False]
    by (simp add: example_masked_def py_index_def py_pos_def count_true_def)
  from e1 e2 e3 show ?thesis by blast
qed

subsection \<open>The trim of the running mean\<close>







lemma time_coord_ofD:
  "time_coord_of s = Some tc \<Longrightarrow> \<exists>dc idx. dim_coords s = Some dc \<and> map_of dc TIME = Some (idx, tc)"
  by (auto simp: time_coord_of_def split: option.splits)

lemma alloc_skip:
  "\<not> (save \<and> \<not> save_none s) \<Longrightarrow> alloc_stage_bin save shp k s = (Returned (), s)"
  by (auto simp: alloc_stage_bin_def)

lemma alloc_bin:
  "save \<and> \<not> save_none s \<Longrightarrow> \<not> list_ex (\<lambda>d. d < 0) shp \<Longrightarrow>
     alloc_stage_bin save shp k s =
       (Returned (),
        s\<lparr>data_bins := (data_bins s)(k \<mapsto> NDArray (map nat shp) (replicate (prod_list (map nat shp)) (Fin 0))),
          attrs := (attrs s)(k \<mapsto> NDArray (map nat shp) (replicate (prod_list (map nat shp)) (Fin 0)))\<rparr>)"
  by (simp add: alloc_stage_bin_def new_empty_databin_def np_empty_def then_do_def)




lemma replicate_numeral: "replicate (numeral k) x = x # replicate (pred_numeral k) x"
  by (simp add: numeral_eq_Suc)




text \<open>
  With a trim of 0, which a window of 0 or 1 has, the Python slice \<open>[0:-0]\<close> of the time
  coordinate is empty, while the data keeps all its samples.
\<close>

lemma running_mean_window_one:
  "edge_trim 1 1 = 0
   \<and> fst (calc_running_mean 1 1 True example_obj) = Returned (data example_obj)
   \<and> time_coord_of (snd (calc_running_mean 1 1 True example_obj)) = Some []"
  by (simp add: calc_running_mean_def edge_trim_def run_mean_def example_obj_def
        mean_rows_def fmean_def fsum_def py_slice_def slice_positions_def slice_bound_def
        time_coord_of_def np_empty_def array_defs seq_defs key_defs obj_defs Let_def upt_rec
        replicate_numeral)




subsection \<open>Temporal resampling\<close>

lemma take_concat_uniform:
  "\<forall>r\<in>set rs. length r = P \<Longrightarrow> take (K * P) (concat rs) = concat (take K rs)"
proof (induction rs arbitrary: K)
  case Nil
  then show ?case by simp
next
  case (Cons r rs)
  show ?case
  proof (cases K)
    case 0
    then show ?thesis by simp
  next
    case (Suc K')
    with Cons show ?thesis by simp
  qed
qed

lemma drop_concat_uniform:
  "\<forall>r\<in>set rs. length r = P \<Longrightarrow> drop (K * P) (concat rs) = concat (drop K rs)"
proof (induction rs arbitrary: K)
  case Nil
  then show ?case by simp
next
  case (Cons r rs)
  show ?case
  proof (cases K)
    case 0
    then show ?thesis by simp
  next
    case (Suc K')
    with Cons show ?thesis by simp
  qed
qed

lemma chunks_concat_group:
  "\<forall>r\<in>set rs. length r = P \<Longrightarrow> chunks M (K * P) (concat rs) = map concat (chunks M K rs)"
proof (induction M arbitrary: rs)
  case 0
  then show ?case by simp
next
  case (Suc M)
  from Suc.prems have "\<forall>r\<in>set (drop K rs). length r = P"
    by (meson in_set_dropD)
  with Suc.IH have "chunks M (K * P) (concat (drop K rs)) = map concat (chunks M K (drop K rs))"
    by blast
  with Suc.prems show ?case
    by (simp add: chunks_Suc take_concat_uniform drop_concat_uniform)
qed

lemma nth_chunks: "i < n \<Longrightarrow> chunks n len xs ! i = take len (drop (i * len) xs)"
  by (simp add: chunks_def)

lemma take_drop_map_nth:
  "m + k \<le> length xs \<Longrightarrow> take k (drop m xs) = map (\<lambda>j. xs ! (m + j)) [0..<k]"
  by (rule nth_equalityI) simp_all

lemma length_mean_rows [simp]: "length (mean_rows P rs) = P"
  by (simp add: mean_rows_def)

lemma slice_block_positions:
  assumes "0 \<le> shift" and "0 \<le> r" and "shift + r \<le> int n" and "1 \<le> st"
    and "int n - r - shift = int c * st"
  shows "slice_positions (Some shift) (if r = 0 then None else Some (- r)) st n
           = map (\<lambda>j. nat shift + j * nat st) [0..<c]"
proof -
  have lo: "slice_bound (int n) 0 (int n) 0 (Some shift) = shift"
    using assms by (simp add: slice_bound_def)
  have hi: "slice_bound (int n) 0 (int n) (int n) (if r = 0 then None else Some (- r)) = int n - r"
    using assms by (simp add: slice_bound_def)
  have d: "int n - r - shift + st - 1 = int c * st + (st - 1)" using assms(5) by simp
  have "(int c * st + (st - 1)) div st = int c"
    using assms(4) by (simp add: div_pos_pos_trivial)
  then have "(int n - r - shift + st - 1) div st = int c"
    by (simp only: d)
  then have cnt: "nat ((int n - r - shift + st - 1) div st) = c" by (simp only: nat_int)
  have zero: "int n - r \<le> shift \<Longrightarrow> c = 0"
  proof -
    assume "int n - r \<le> shift"
    with assms(5) have "int c * st \<le> 0" by simp
    with assms(4) have "int c \<le> 0" by (simp add: mult_le_0_iff)
    then show "c = 0" by simp
  qed
  have pos: "\<And>j. nat (shift + int j * st) = nat shift + j * nat st"
    using assms(1,4) by (simp add: nat_add_distrib nat_mult_distrib)
  show ?thesis
    using assms(4) lo hi cnt zero pos by (auto simp: slice_positions_def Let_def)
qed

lemma setattr_array_plain:
  "\<not> reserved_name k \<Longrightarrow> setattr_array k b s = (Returned (), s\<lparr>attrs := (attrs s)(k \<mapsto> b)\<rparr>)"
  by (auto simp: setattr_array_def reserved_name_def instance_fields_def object_slots_def)

lemma reserved_data: "\<not> reserved_name k \<Longrightarrow> k \<noteq> ''data''"
  by (auto simp: reserved_name_def instance_fields_def)

lemma resample_returns:
  assumes lt: "leading_time s" and ts: "time_shp s = [int N]"
    and sh: "shape (data s) = N # sp" and fl: "length (flat (data s)) = N * prod_list sp"
    and tc: "time_coord_of s = Some tc" and ltc: "length tc = N"
    and ck: "curr_data_key s = Some ck" and ops: "ops_performed s ck = Some ops"
    and k: "1 \<le> k" and s0: "0 \<le> shift" and sN: "shift \<le> int N"
    and nr: "\<not> reserved_name key"
  defines "M \<equiv> nat ((int N - shift) div k)"
  shows "\<exists>s'. time_average_resample key k shift s = (Returned (data s'), s')
           \<and> shape (data s') = M # sp
           \<and> (\<forall>i<M. rows (data s') ! i =
                 mean_rows (prod_list sp)
                   (map (\<lambda>j. rows (data s) ! (nat shift + i * nat k + j)) [0..<nat k]))
           \<and> time_shp s' = [int M]
           \<and> time_coord_of s' = Some (map (\<lambda>i. tc ! (nat shift + i * nat k)) [0..<M])
           \<and> altered_time_coords s' key = Some (map (\<lambda>i. tc ! (nat shift + i * nat k)) [0..<M])
           \<and> curr_data_key s' = Some key
           \<and> ops_performed s' key = Some (ops @ [key])
           \<and> data_bins s' key = Some (data s') \<and> attrs s' key = Some (data s')"
proof -
  define K where "K = nat k"
  define P where "P = prod_list sp"
  define r where "r = (int N - shift) mod k"
  define z where "z = nat shift"
  let ?d = "data s"
  let ?cut = "if r = 0 then None else Some (- r)"
  have kK: "k = int K" and K1: "1 \<le> K" using k by (simp_all add: K_def)
  have r0: "0 \<le> r" and rk: "r < k" using k by (simp_all add: r_def)
  have Mi: "(int N - shift) div k = int M"
    using k s0 sN by (simp add: M_def pos_imp_zdiv_nonneg_iff)
  have "k * ((int N - shift) div k) + (int N - shift) mod k = int N - shift"
    by (rule mult_div_mod_eq)
  then have split: "int N - shift = int M * k + r"
    unfolding Mi r_def [symmetric] by (simp add: mult.commute)
  have mk: "0 \<le> int M * k" using k by simp
  have rN: "shift + r \<le> int N" using split mk by linarith
  have "int (z + M * K) = shift + int M * k" using s0 by (simp add: z_def kK)
  then have "int (z + M * K) \<le> int N" using split r0 by linarith
  then have zM: "z + M * K \<le> N" by (simp only: of_nat_le_iff)
  from time_coord_ofD [OF tc] obtain dc idx where
    dc: "dim_coords s = Some dc" "map_of dc TIME = Some (idx, tc)" by blast
  have rws: "rows ?d = chunks N P (flat ?d)" using sh by (simp add: rows_def P_def)
  have rlen: "\<forall>x\<in>set (rows ?d). length x = P"
    unfolding rws using fl by (intro chunk_lengths) (simp add: P_def)
  have rn: "length (rows ?d) = N" using sh by (rule length_rows)
  \<comment> \<open>the new bin\<close>
  let ?bin = "NDArray (M # sp) (replicate (M * P) (Fin 0))"
  have nn: "\<not> list_ex (\<lambda>d. d < 0) (map int sp)" by (simp add: list_ex_iff)
  have bin: "new_empty_databin (int M # map int sp) key s
               = (Returned ?bin, s\<lparr>data_bins := (data_bins s)(key \<mapsto> ?bin)\<rparr>)"
    using nn by (simp add: new_empty_databin_def np_empty_def o_def P_def)
  \<comment> \<open>the slice of the data\<close>
  let ?rs = "map (\<lambda>j. rows ?d ! (z + j)) [0..<M * K]"
  have pos1: "slice_positions (Some shift) ?cut 1 N = map (\<lambda>j. z + j) [0..<M * K]"
    using slice_block_positions [OF s0 r0 rN, of 1 "M * K"] split
    by (simp add: kK z_def)
  have sl: "slice_axis0 (Some shift) ?cut 1 ?d = Inr (from_rows sp ?rs)"
    using sh rn pos1 by (simp add: slice_axis0_def py_slice_def o_def)
  have rslen: "\<forall>x\<in>set ?rs. length x = P"
    using rlen rn zM by auto
  \<comment> \<open>the reshape and the mean\<close>
  let ?d2 = "NDArray (M # K # sp) (concat ?rs)"
  have sz: "asize (from_rows sp ?rs) = M * K * P"
    by (simp add: asize_def from_rows_def P_def)
  have rsh: "np_reshape (int M # k # map int sp) (from_rows sp ?rs) = Inr ?d2"
    using K1 sz by (simp add: np_reshape_def kK o_def from_rows_def P_def)
  let ?res = "NDArray (M # sp)
                (concat (map (\<lambda>blk. mean_rows P (chunks K P blk)) (chunks M (K * P) (concat ?rs))))"
  have av: "avg_func ?d2 (Some ?bin) = Inr ?res"
    by (simp add: avg_func_def P_def Let_def)
  have grp: "chunks M (K * P) (concat ?rs) = map concat (chunks M K ?rs)"
    using rslen by (rule chunks_concat_group)
  have rres: "rows ?res = map (\<lambda>blk. mean_rows P (chunks K P blk)) (chunks M (K * P) (concat ?rs))"
  proof -
    have "chunks (length (map (\<lambda>blk. mean_rows P (chunks K P blk)) (chunks M (K * P) (concat ?rs)))) P
            (concat (map (\<lambda>blk. mean_rows P (chunks K P blk)) (chunks M (K * P) (concat ?rs))))
          = map (\<lambda>blk. mean_rows P (chunks K P blk)) (chunks M (K * P) (concat ?rs))"
      by (rule chunks_concat) simp
    then show ?thesis by (simp add: rows_def P_def)
  qed
  have el: "rows ?res ! i = mean_rows P (map (\<lambda>j. rows ?d ! (z + i * K + j)) [0..<K])" if i: "i < M" for i
  proof -
    have b: "i * K + K \<le> M * K" using i by (metis Suc_leI mult_Suc mult_le_mono1 add.commute)
    have blk: "chunks M K ?rs ! i = map (\<lambda>j. rows ?d ! (z + i * K + j)) [0..<K]"
    proof -
      have "chunks M K ?rs ! i = take K (drop (i * K) ?rs)" using i by (rule nth_chunks)
      also have "\<dots> = map (\<lambda>j. ?rs ! (i * K + j)) [0..<K]"
        using b by (intro take_drop_map_nth) simp
      also have "\<dots> = map (\<lambda>j. rows ?d ! (z + i * K + j)) [0..<K]"
        using b by (intro map_cong) (simp_all add: add.assoc)
      finally show ?thesis .
    qed
    have bl: "\<forall>x\<in>set (chunks M K ?rs ! i). length x = P"
      unfolding blk using rlen rn zM b by auto
    have "chunks (length (chunks M K ?rs ! i)) P (concat (chunks M K ?rs ! i)) = chunks M K ?rs ! i"
      using bl by (rule chunks_concat)
    then have ck: "chunks K P (concat (chunks M K ?rs ! i)) = chunks M K ?rs ! i"
      by (simp add: blk)
    have "rows ?res ! i = map (\<lambda>blk. mean_rows P (chunks K P blk)) (chunks M (K * P) (concat ?rs)) ! i"
      by (simp only: rres)
    also have "\<dots> = map (\<lambda>blk. mean_rows P (chunks K P blk)) (map concat (chunks M K ?rs)) ! i"
      by (simp only: grp)
    also have "\<dots> = mean_rows P (chunks K P (concat (chunks M K ?rs ! i)))"
      using i by simp
    finally have "rows ?res ! i = mean_rows P (chunks K P (concat (chunks M K ?rs ! i)))" .
    then show ?thesis unfolding ck unfolding blk .
  qed
  \<comment> \<open>the time coordinate\<close>
  have posk: "slice_positions (Some shift) ?cut k N = map (\<lambda>j. z + j * K) [0..<M]"
    using slice_block_positions [OF s0 r0 rN k, of M] split
    by (simp add: K_def z_def)
  have tsl: "py_slice (Some shift) ?cut k tc = map (\<lambda>i. tc ! (z + i * K)) [0..<M]"
    using posk ltc by (simp add: py_slice_def o_def)
  have k0: "k \<noteq> 0" using k by simp
  have res_sh: "shape ?res = M # sp" by simp
  show ?thesis
    unfolding K_def [symmetric] P_def [symmetric] z_def [symmetric]
    apply (rule exI [of _ "snd (time_average_resample key k shift s)"])
    using lt ts s0 k0 sh dc ck ops Mi bin sl [unfolded r_def] rsh av tsl [unfolded r_def] el
      reserved_data [OF nr]
    apply (simp add: time_average_resample_def Let_def setattr_array_plain [OF nr]
            then_do_def lift_def store_result_def
            commit_stage_def add_to_operation_history_def set_curr_data_key_def
            time_coord_of_def update_conv' del: upt_Suc split del: if_split)
    done
qed

lemma foldl_fadd_Fin: "foldl fadd (Fin a) (map Fin xs) = Fin (a + sum_list xs)"
  by (induction xs arbitrary: a) (simp_all add: add.assoc)

lemma fmean_finite: "xs \<noteq> [] \<Longrightarrow> fmean (map Fin xs) = Fin (sum_list xs / real (length xs))"
  by (simp add: fmean_def fsum_def foldl_fadd_Fin)

lemma mean_rows_finite:
  assumes "p < P" and "map (\<lambda>r. r ! p) rs = map Fin xs" and "rs \<noteq> []"
  shows "mean_rows P rs ! p = Fin (sum_list xs / real (length rs))"
proof -
  have "length xs = length rs" using assms(2) by (metis length_map)
  moreover have "xs \<noteq> []" using assms(2,3) by auto
  ultimately show ?thesis
    using assms(1,2) by (simp add: mean_rows_def fmean_finite)
qed

lemmas resample_eval = time_average_resample_def setattr_array_def reserved_name_def
  instance_fields_def slice_axis0_def py_slice_def slice_positions_def slice_bound_def
  np_reshape_def np_empty_def array_defs seq_defs key_defs obj_defs Let_def upt_rec

text \<open>
  Claim C1, as the claim states it, fails in three places. With a shift beyond the length
  of the series the number of samples that are left, and with it the length of the new bin,
  is negative: the allocation raises a ValueError, and the object is as it was. The key
  is a name that the caller chooses: with the key \<^verbatim>\<open>data\<close> the call rebinds the current data
  to the new bin before it reads them, and the reshape into blocks raises. And a block
  size of 0 is a division by zero.
\<close>

theorem resample_outside_domain:
  "time_average_resample ''resampled'' 2 5 example_obj
     = (Raised (ValueError ''negative dimensions are not allowed''), example_obj)
   \<and> reserved_name ''data''
   \<and> fst (time_average_resample ''data'' 2 0 example_obj)
     = Raised (ValueError ''cannot reshape array'')
   \<and> time_average_resample ''resampled'' 0 0 example_obj = (Raised ZeroDivisionError, example_obj)"
  by (simp add: example_obj_def resample_eval eval_nat_numeral)

text \<open>
  Claim C1, amended. On an object with a leading time axis of \<open>N\<close> samples (the data, the
  time shape and the time coordinate all of that length), \<^verbatim>\<open>time_average_resample\<close> with a
  block size \<open>k \<ge> 1\<close>, a shift \<open>0 \<le> s \<le> N\<close> and a key that names a new attribute or a stage
  attribute (no other member of the class) returns data of \<open>floor((N - s) / k)\<close> samples;
  sample \<open>i\<close> of the output is the elementwise mean of the input samples \<open>s + i k\<close> to
  \<open>s + (i + 1) k - 1\<close> (the sum divided by \<open>k\<close> where the values are finite); the time
  coordinate, also recorded for the new stage, holds the entries \<open>s, s + k, s + 2 k, ...\<close> of
  the one before, one for each output sample; and the new stage is committed under the
  given key. With a negative shift the call raises a ValueError and leaves the object as it
  was.
\<close>

theorem resample_block_mean:
  "(leading_time s \<and> shift < 0 \<longrightarrow>
      time_average_resample key k shift s =
        (Raised (ValueError ''Currently only positive shifts are supported for resampling.''), s))
   \<and> (leading_time s \<and> time_shp s = [int N] \<and> shape (data s) = N # sp
        \<and> length (flat (data s)) = N * prod_list sp
        \<and> time_coord_of s = Some tc \<and> length tc = N
        \<and> curr_data_key s = Some ck \<and> ops_performed s ck = Some ops
        \<and> 1 \<le> k \<and> 0 \<le> shift \<and> shift \<le> int N \<and> \<not> reserved_name key
       \<longrightarrow> (\<exists>s'. time_average_resample key k shift s = (Returned (data s'), s')
           \<and> shape (data s') = nat ((int N - shift) div k) # sp
           \<and> (\<forall>i<nat ((int N - shift) div k).
                 rows (data s') ! i =
                   mean_rows (prod_list sp)
                     (map (\<lambda>j. rows (data s) ! (nat shift + i * nat k + j)) [0..<nat k]))
           \<and> (\<forall>i<nat ((int N - shift) div k). \<forall>p<prod_list sp. \<forall>xs.
                 map (\<lambda>j. rows (data s) ! (nat shift + i * nat k + j) ! p) [0..<nat k] = map Fin xs
                 \<longrightarrow> rows (data s') ! i ! p = Fin (sum_list xs / real_of_int k))
           \<and> time_shp s' = [(int N - shift) div k]
           \<and> time_coord_of s'
                = Some (map (\<lambda>i. tc ! (nat shift + i * nat k)) [0..<nat ((int N - shift) div k)])
           \<and> altered_time_coords s' key
                = Some (map (\<lambda>i. tc ! (nat shift + i * nat k)) [0..<nat ((int N - shift) div k)])
           \<and> curr_data_key s' = Some key
           \<and> ops_performed s' key = Some (ops @ [key])
           \<and> data_bins s' key = Some (data s') \<and> attrs s' key = Some (data s')))"
proof -
  have a: "leading_time s \<and> shift < 0 \<longrightarrow>
      time_average_resample key k shift s =
        (Raised (ValueError ''Currently only positive shifts are supported for resampling.''), s)"
    by (simp add: time_average_resample_def)
  have b: "\<exists>s'. time_average_resample key k shift s = (Returned (data s'), s')
           \<and> shape (data s') = nat ((int N - shift) div k) # sp
           \<and> (\<forall>i<nat ((int N - shift) div k).
                 rows (data s') ! i =
                   mean_rows (prod_list sp)
                     (map (\<lambda>j. rows (data s) ! (nat shift + i * nat k + j)) [0..<nat k]))
           \<and> (\<forall>i<nat ((int N - shift) div k). \<forall>p<prod_list sp. \<forall>xs.
                 map (\<lambda>j. rows (data s) ! (nat shift + i * nat k + j) ! p) [0..<nat k] = map Fin xs
                 \<longrightarrow> rows (data s') ! i ! p = Fin (sum_list xs / real_of_int k))
           \<and> time_shp s' = [(int N - shift) div k]
           \<and> time_coord_of s'
                = Some (map (\<lambda>i. tc ! (nat shift + i * nat k)) [0..<nat ((int N - shift) div k)])
           \<and> altered_time_coords s' key
                = Some (map (\<lambda>i. tc ! (nat shift + i * nat k)) [0..<nat ((int N - shift) div k)])
           \<and> curr_data_key s' = Some key
           \<and> ops_performed s' key = Some (ops @ [key])
           \<and> data_bins s' key = Some (data s') \<and> attrs s' key = Some (data s')"
    if h: "leading_time s" "time_shp s = [int N]" "shape (data s) = N # sp"
        "length (flat (data s)) = N * prod_list sp"
        "time_coord_of s = Some tc" "length tc = N"
        "curr_data_key s = Some ck" "ops_performed s ck = Some ops"
        "1 \<le> k" "0 \<le> shift" "shift \<le> int N" "\<not> reserved_name key"
  proof -
    let ?M = "nat ((int N - shift) div k)"
    from resample_returns [OF h] obtain s' where s':
      "time_average_resample key k shift s = (Returned (data s'), s')"
      "shape (data s') = ?M # sp"
      "\<forall>i<?M. rows (data s') ! i =
           mean_rows (prod_list sp)
             (map (\<lambda>j. rows (data s) ! (nat shift + i * nat k + j)) [0..<nat k])"
      "time_shp s' = [int ?M]"
      "time_coord_of s' = Some (map (\<lambda>i. tc ! (nat shift + i * nat k)) [0..<?M])"
      "altered_time_coords s' key = Some (map (\<lambda>i. tc ! (nat shift + i * nat k)) [0..<?M])"
      "curr_data_key s' = Some key"
      "ops_performed s' key = Some (ops @ [key])"
      "data_bins s' key = Some (data s')" "attrs s' key = Some (data s')"
      by blast
    have Mi: "int ?M = (int N - shift) div k"
      using h(9-11) by (simp add: pos_imp_zdiv_nonneg_iff)
    have fin: "rows (data s') ! i ! p = Fin (sum_list xs / real_of_int k)"
      if "i < ?M" "p < prod_list sp"
        "map (\<lambda>j. rows (data s) ! (nat shift + i * nat k + j) ! p) [0..<nat k] = map Fin xs"
      for i p xs
    proof -
      let ?rs = "map (\<lambda>j. rows (data s) ! (nat shift + i * nat k + j)) [0..<nat k]"
      have ne: "?rs \<noteq> []" using h(9) by simp
      have "map (\<lambda>r. r ! p) ?rs = map Fin xs" using that(3) by (simp add: o_def)
      from mean_rows_finite [OF that(2) this ne]
      have "mean_rows (prod_list sp) ?rs ! p = Fin (sum_list xs / real (nat k))" by simp
      moreover have "real (nat k) = real_of_int k" using h(9) by simp
      ultimately show ?thesis using s'(3) that(1) by simp
    qed
    from s' Mi fin show ?thesis by (intro exI [of _ s']) simp
  qed
  from a b show ?thesis by blast
qed

theorem resample_block_mean_witness:
  "time_average_resample ''resampled'' 2 (- 1) example_obj =
      (Raised (ValueError ''Currently only positive shifts are supported for resampling.''), example_obj)
   \<and> (\<exists>s'. time_average_resample ''resampled'' 3 1 example_obj = (Returned (data s'), s')
          \<and> shape (data s') = [1, 2] \<and> rows (data s') ! 0 = [Fin 5, Fin 6]
          \<and> time_shp s' = [1] \<and> time_coord_of s' = Some [20])
   \<and> (\<exists>s'. time_average_resample ''resampled'' 2 0 example_obj = (Returned (data s'), s')
          \<and> shape (data s') = [2, 2]
          \<and> rows (data s') ! 0 = [Fin 2, Fin 3] \<and> rows (data s') ! 1 = [Fin 6, Fin 7]
          \<and> time_shp s' = [2] \<and> time_coord_of s' = Some [10, 30])"
proof -
  have h: "leading_time example_obj" "time_shp example_obj = [int 4]"
      "shape (data example_obj) = 4 # [2]"
      "length (flat (data example_obj)) = 4 * prod_list [2]"
      "time_coord_of example_obj = Some [10, 20, 30, 40]"
      "length [10, 20, 30, 40 :: real] = 4"
      "curr_data_key example_obj = Some ORIGDATA"
      "ops_performed example_obj ORIGDATA = Some [ORIGDATA]"
      "\<not> reserved_name ''resampled''"
    by (simp_all add: example_obj_def time_coord_of_def reserved_name_def instance_fields_def
          class_members_def object_slots_def)
  have rws: "rows (data example_obj) = [[Fin 1, Fin 2], [Fin 3, Fin 4], [Fin 5, Fin 6], [Fin 7, Fin 8]]"
    by (simp add: example_obj_def rows_def chunks_def upt_rec)
  have a: "time_average_resample ''resampled'' 2 (- 1) example_obj =
      (Raised (ValueError ''Currently only positive shifts are supported for resampling.''), example_obj)"
    using resample_block_mean [of example_obj "- 1" "''resampled''" 2] h(1) by simp
  have "\<exists>s'. time_average_resample ''resampled'' 3 1 example_obj = (Returned (data s'), s')
          \<and> shape (data s') = nat ((int 4 - 1) div 3) # [2]
          \<and> (\<forall>i<nat ((int 4 - 1) div 3). rows (data s') ! i =
                mean_rows (prod_list [2])
                  (map (\<lambda>j. rows (data example_obj) ! (nat 1 + i * nat 3 + j)) [0..<nat 3]))
          \<and> time_shp s' = [(int 4 - 1) div 3]
          \<and> time_coord_of s'
              = Some (map (\<lambda>i. [10, 20, 30, 40] ! (nat 1 + i * nat 3)) [0..<nat ((int 4 - 1) div 3)])"
    using resample_block_mean [of example_obj 1 "''resampled''" 3 4 "[2]" "[10, 20, 30, 40]"
        ORIGDATA "[ORIGDATA]"] h
    by auto
  then have b: "\<exists>s'. time_average_resample ''resampled'' 3 1 example_obj = (Returned (data s'), s')
          \<and> shape (data s') = [1, 2] \<and> rows (data s') ! 0 = [Fin 5, Fin 6]
          \<and> time_shp s' = [1] \<and> time_coord_of s' = Some [20]"
    by (auto simp: rws mean_rows_def fmean_def fsum_def upt_rec)
  have "\<exists>s'. time_average_resample ''resampled'' 2 0 example_obj = (Returned (data s'), s')
          \<and> shape (data s') = nat ((int 4 - 0) div 2) # [2]
          \<and> (\<forall>i<nat ((int 4 - 0) div 2). rows (data s') ! i =
                mean_rows (prod_list [2])
                  (map (\<lambda>j. rows (data example_obj) ! (nat 0 + i * nat 2 + j)) [0..<nat 2]))
          \<and> time_shp s' = [(int 4 - 0) div 2]
          \<and> time_coord_of s'
              = Some (map (\<lambda>i. [10, 20, 30, 40] ! (nat 0 + i * nat 2)) [0..<nat ((int 4 - 0) div 2)])"
    using resample_block_mean [of example_obj 0 "''resampled''" 2 4 "[2]" "[10, 20, 30, 40]"
        ORIGDATA "[ORIGDATA]"] h
    by auto
  then obtain s' where s': "time_average_resample ''resampled'' 2 0 example_obj = (Returned (data s'), s')"
      "shape (data s') = [2, 2]"
      "\<forall>i<2. rows (data s') ! i =
                mean_rows 2 (map (\<lambda>j. rows (data example_obj) ! (i * 2 + j)) [0..<2])"
      "time_shp s' = [2]" "time_coord_of s' = Some [10, 30]"
    by (auto simp: upt_rec numeral_2_eq_2)
  from s'(3) have "rows (data s') ! 0 = [Fin 2, Fin 3]" "rows (data s') ! 1 = [Fin 6, Fin 7]"
    by (simp_all add: rws mean_rows_def fmean_def fsum_def upt_rec)
  with s' have c: "\<exists>s'. time_average_resample ''resampled'' 2 0 example_obj = (Returned (data s'), s')
          \<and> shape (data s') = [2, 2]
          \<and> rows (data s') ! 0 = [Fin 2, Fin 3] \<and> rows (data s') ! 1 = [Fin 6, Fin 7]
          \<and> time_shp s' = [2] \<and> time_coord_of s' = Some [10, 30]"
    by blast
  from a b c show ?thesis by blast
qed

subsection \<open>The shape of the EOF projection\<close>

lemmas eval_defs = np_empty_def np_binop_def broadcast_shapes_def pad_shape_def broadcast_to_def
  np_assign_all_def fsum_def np_dot_def np_reshape_def eof_num_modes_def
  reset_data_def set_time_coord_def resolve_time_coord_def flatten_curr_data_def
  array_defs seq_defs key_defs obj_defs Let_def upt_rec eval_nat_numeral

lemma example_weighted_state:
  "example_weighted =
     example_series\<lparr>data := NDArray [2, 3] [Fin 1, Fin 2, Fin 3, Fin 2, Fin 1, Fin 1],
       data_bins := [ORIGDATA \<mapsto> NDArray [2, 3] [Fin 4, Fin 8, Fin 6, Fin 8, Fin 4, Fin 2],
                     AWGHT \<mapsto> NDArray [2, 3] [Fin 1, Fin 2, Fin 3, Fin 2, Fin 1, Fin 1]],
       attrs := [ORIGDATA \<mapsto> NDArray [2, 3] [Fin 4, Fin 8, Fin 6, Fin 8, Fin 4, Fin 2],
                 AWGHT \<mapsto> NDArray [2, 3] [Fin 1, Fin 2, Fin 3, Fin 2, Fin 1, Fin 1]],
       ops_performed := [ORIGDATA \<mapsto> [ORIGDATA], AWGHT \<mapsto> [ORIGDATA, AWGHT]],
       curr_data_key := Some AWGHT\<rparr>"
  by (simp add: example_weighted_def area_weight_data_def example_series_def eval_defs)

lemma first_projection:
  "eof_proj_data no_eofs_kernel 10 (Some basis_two) True None None example_weighted =
     (Returned (NDArray [2, 2] [Fin 1, Fin 2, Fin 2, Fin 1]), example_projected)
   \<and> attrs example_projected EOFPROJ = Some (NDArray [2, 2] [Fin 1, Fin 2, Fin 2, Fin 1])
   \<and> data_bins example_projected AWGHT = Some (NDArray [2, 3] [Fin 1, Fin 2, Fin 3, Fin 2, Fin 1, Fin 1])
   \<and> curr_data_key example_projected = Some EOFPROJ"
  by (simp add: example_projected_def example_weighted_state eof_proj_data_def example_series_def
        basis_two_def eval_defs)

lemma example_projected_state:
  "example_projected =
     example_series\<lparr>data := NDArray [2, 2] [Fin 1, Fin 2, Fin 2, Fin 1],
       data_bins := [ORIGDATA \<mapsto> NDArray [2, 3] [Fin 4, Fin 8, Fin 6, Fin 8, Fin 4, Fin 2],
                     AWGHT \<mapsto> NDArray [2, 3] [Fin 1, Fin 2, Fin 3, Fin 2, Fin 1, Fin 1],
                     EOFPROJ \<mapsto> NDArray [2, 2] [Fin 1, Fin 2, Fin 2, Fin 1]],
       attrs := [ORIGDATA \<mapsto> NDArray [2, 3] [Fin 4, Fin 8, Fin 6, Fin 8, Fin 4, Fin 2],
                 AWGHT \<mapsto> NDArray [2, 3] [Fin 1, Fin 2, Fin 3, Fin 2, Fin 1, Fin 1],
                 EOFPROJ \<mapsto> NDArray [2, 2] [Fin 1, Fin 2, Fin 2, Fin 1]],
       ops_performed := [ORIGDATA \<mapsto> [ORIGDATA], AWGHT \<mapsto> [ORIGDATA, AWGHT],
                         EOFPROJ \<mapsto> [ORIGDATA, AWGHT, EOFPROJ]],
       curr_data_key := Some EOFPROJ,
       eofs := Some basis_two\<rparr>"
  by (simp add: example_projected_def example_weighted_state eof_proj_data_def example_series_def
        basis_two_def eval_defs)

text \<open>
  Claim C8. The claim says that the projection onto \<open>k\<close> modes has shape \<open>(N, k)\<close>, with
  \<open>k\<close> the number of columns of a basis given by the caller. It does when the call
  allocates its bin, or when no bin of an earlier projection is left (lemma
  \<open>eof_proj_saved_shape\<close>), and a basis whose number of rows is not the feature length of the
  data raises a ValueError (lemma \<open>eof_basis_mismatch\<close>). But \<^verbatim>\<open>eof_proj_data\<close> writes the
  projection into \<^verbatim>\<open>self.eof_proj\<close> whenever that attribute holds an array, also when
  \<^verbatim>\<open>save\<close> is false and the array is the bin of an earlier projection. Below, an object
  of two samples is projected onto two modes with saving, and then onto a basis of one mode
  without saving: the projection of shape \<open>(2, 1)\<close> is broadcast into the bin of the first
  call, and the data returned has shape \<open>(2, 2)\<close>.
\<close>

theorem stale_projection_bin:
  "shape basis_one = [3, 1]
   \<and> fst (eof_proj_data no_eofs_kernel 10 (Some basis_two) True None None example_weighted)
       = Returned (NDArray [2, 2] [Fin 1, Fin 2, Fin 2, Fin 1])
   \<and> data_bins example_projected AWGHT
       = Some (NDArray [2, 3] [Fin 1, Fin 2, Fin 3, Fin 2, Fin 1, Fin 1])
   \<and> fst (eof_proj_data no_eofs_kernel 10 (Some basis_one) False None None example_projected)
       = Returned (NDArray [2, 2] [Fin 3, Fin 3, Fin 1, Fin 1])"
proof -
  have a: "shape basis_one = [3, 1]" by (simp add: basis_one_def)
  have b: "fst (eof_proj_data no_eofs_kernel 10 (Some basis_two) True None None example_weighted)
       = Returned (NDArray [2, 2] [Fin 1, Fin 2, Fin 2, Fin 1])"
    using first_projection by simp
  have c: "data_bins example_projected AWGHT
       = Some (NDArray [2, 3] [Fin 1, Fin 2, Fin 3, Fin 2, Fin 1, Fin 1])"
    using first_projection by simp
  have d: "fst (eof_proj_data no_eofs_kernel 10 (Some basis_one) False None None example_projected)
       = Returned (NDArray [2, 2] [Fin 3, Fin 3, Fin 1, Fin 1])"
    by (simp add: example_projected_state eof_proj_data_def example_series_def
        basis_one_def eval_defs)
  from a b c d show ?thesis by blast
qed

lemma bshape_aligned_same: "bshape_aligned sh sh = Some sh"
  by (induction sh) simp_all

lemma broadcast_shapes_same: "broadcast_shapes sh sh = Some sh"
  by (simp add: broadcast_shapes_def pad_shape_def bshape_aligned_same)

lemma np_dot_matrix_shape:
  "shape a = [N, F] \<Longrightarrow> shape b = [F, C] \<Longrightarrow> \<exists>xs. np_dot a b = Inr (NDArray [N, C] xs)"
  by (simp add: np_dot_def ndim_def Let_def)

lemma np_assign_same_shape:
  "shape target = [N, C] \<Longrightarrow> \<exists>ys. np_assign_all target (NDArray [N, C] xs) = Inr (NDArray [N, C] ys)"
  by (simp add: np_assign_all_def ndim_def broadcast_shapes_same Let_def)

lemma eof_basis_mismatch:
  assumes "leading_time s" and "calc_on \<noteq> None \<or> curr_data_key s = Some AWGHT"
    and "shape (data s) = [N, F]" and "shape B = R # rest" and "R \<noteq> F"
  shows "eof_proj_data ce ne (Some B) save calc_on proj_key s =
           (Raised (ValueError ''Feature dimension mismatch for input EOFs''), s)"
  using assms
  by (auto simp: eof_proj_data_def eof_num_modes_def then_do_def lift_def ndim_def)

lemma eof_proj_saved_shape:
  assumes "leading_time s" and "calc_on \<noteq> None \<or> curr_data_key s = Some AWGHT"
    and "shape (data s) = [N, F]" and "shape B = [F, C]"
    and "curr_data_key s = Some ck" and "ops_performed s ck = Some ops"
    and "(save \<and> \<not> save_none s) \<or> attrs s EOFPROJ = None"
  shows "\<exists>d s'. eof_proj_data ce ne (Some B) save calc_on None s = (Returned d, s')
           \<and> shape d = [N, C] \<and> curr_data_key s' = Some EOFPROJ"
proof -
  from np_dot_matrix_shape [OF assms(3,4)] obtain xs where
    dot: "np_dot (data s) B = Inr (NDArray [N, C] xs)" by blast
  let ?s4 = "s\<lparr>eofs := Some B\<rparr>"
  show ?thesis
  proof (cases "save \<and> \<not> save_none s")
    case True
    then have sv: "save" "\<not> save_none s" by simp_all
    let ?bin = "NDArray [N, C] (replicate (N * C) (Fin 0))"
    have al: "alloc_stage_bin True [int N, int C] EOFPROJ ?s4 =
       (Returned (), ?s4\<lparr>data_bins := (data_bins ?s4)(EOFPROJ \<mapsto> ?bin),
                          attrs := (attrs ?s4)(EOFPROJ \<mapsto> ?bin)\<rparr>)"
      using sv alloc_bin [of True ?s4 "[int N, int C]" EOFPROJ] by simp
    from np_assign_same_shape [of ?bin N C xs] obtain ys where
      asg: "np_assign_all ?bin (NDArray [N, C] xs) = Inr (NDArray [N, C] ys)" by auto
    show ?thesis
      using sv assms(1-6) dot al asg
      by (auto simp: eof_proj_data_def eof_num_modes_def then_do_def lift_def ndim_def
            assign_result_def store_result_def commit_stage_def add_to_operation_history_def
            set_curr_data_key_def)
  next
    case False
    with assms(7) have at: "attrs s EOFPROJ = None" by blast
    have al: "alloc_stage_bin save [int N, int C] EOFPROJ ?s4 = (Returned (), ?s4)"
      using False by (intro alloc_skip) simp
    show ?thesis
      using at assms(1-6) dot al
      by (auto simp: eof_proj_data_def eof_num_modes_def then_do_def lift_def ndim_def
            assign_result_def store_result_def commit_stage_def add_to_operation_history_def
            set_curr_data_key_def)
  qed
qed

end
